theory Spec2Isabelle
  imports Complex_Main
begin

section \<open>Conventions of the embedding\<close>

text \<open>
  The agent of \<^verbatim>\<open>gail_agent.py\<close> and the distributions of
  \<^verbatim>\<open>distributions.py\<close> compute on tensors of floating-point numbers. Here a
  tensor is the list of its elements and arithmetic is the arithmetic of the real numbers:
  rounding, overflow and the difference between 32 and 64 bit floats are left out. The
  one exception is the normalization of the advantages at the end of
  \<^verbatim>\<open>_compute_gae\<close>: what it stores depends on the rounding and the range of
  32-bit floats, so it is modelled in 32-bit floating-point arithmetic, with its
  infinities and its not-a-number.

  Exceptions are values of \<open>py_error\<close>; a function that can raise returns
  \<open>py_error + 'a\<close>.
\<close>

datatype py_error =
    AssertionError | IndexError | KeyError | ValueError | RuntimeError
  | ZeroDivisionError | StopIteration

datatype fval = Fin real | PInf | NInf | NaN

section \<open>Arithmetic of 32-bit floats\<close>

text \<open>
  A 32-bit float (IEEE 754 binary32, numpy's \<^verbatim>\<open>float32\<close>) is a finite number, an
  infinity or a not-a-number. The finite ones are the multiples of
  \<open>2 powi (e - 23)\<close> below \<open>2 powi (e + 1)\<close> in absolute value, for an exponent \<open>e\<close>
  from -126 to 127; the two zeros are not told apart. \<open>fl32\<close> rounds a real number to
  the nearest of them, a tie to the one with the even multiple; what rounds to
  \<open>2 ^ 128\<close> or beyond is an infinity, and what is below half of the smallest positive
  float, \<open>2 powi (- 149)\<close>, rounds to 0.
\<close>

definition exponent32 :: "real \<Rightarrow> int" where
  "exponent32 x = max \<lfloor>log 2 \<bar>x\<bar>\<rfloor> (- 126)"

definition ulp32 :: "real \<Rightarrow> real" where
  "ulp32 x = 2 powi (exponent32 x - 23)"

definition round_half_even :: "real \<Rightarrow> int" where
  "round_half_even y =
     (let n = \<lfloor>y\<rfloor>; r = y - of_int n
      in if r < 1 / 2 then n else if 1 / 2 < r then n + 1 else if even n then n else n + 1)"

definition fl32 :: "real \<Rightarrow> fval" where
  "fl32 x =
     (if x = 0 then Fin 0
      else
        let y = of_int (round_half_even (x / ulp32 x)) * ulp32 x
        in if 2 ^ 128 \<le> \<bar>y\<bar> then (if 0 < x then PInf else NInf) else Fin y)"

text \<open>
  The operations on floats that the normalization uses: each is the rounded exact
  result on finite operands and follows IEEE 754 on the others. A finite number divided
  by zero is an infinity of its sign (the zero divisors of the normalization are square
  roots, positive zeros), and zero divided by zero is not a number.
\<close>

fun fadd32 :: "fval \<Rightarrow> fval \<Rightarrow> fval" where
  "fadd32 (Fin x) (Fin y) = fl32 (x + y)"
| "fadd32 NaN b = NaN"
| "fadd32 a NaN = NaN"
| "fadd32 PInf NInf = NaN"
| "fadd32 NInf PInf = NaN"
| "fadd32 PInf b = PInf"
| "fadd32 a PInf = PInf"
| "fadd32 NInf b = NInf"
| "fadd32 a NInf = NInf"

fun fsub32 :: "fval \<Rightarrow> fval \<Rightarrow> fval" where
  "fsub32 (Fin x) (Fin y) = fl32 (x - y)"
| "fsub32 NaN b = NaN"
| "fsub32 a NaN = NaN"
| "fsub32 PInf PInf = NaN"
| "fsub32 NInf NInf = NaN"
| "fsub32 PInf b = PInf"
| "fsub32 a PInf = NInf"
| "fsub32 NInf b = NInf"
| "fsub32 a NInf = PInf"

fun fsign :: "fval \<Rightarrow> real" where
  "fsign (Fin x) = sgn x"
| "fsign PInf = 1"
| "fsign NInf = - 1"
| "fsign NaN = 0"

fun fmul32 :: "fval \<Rightarrow> fval \<Rightarrow> fval" where
  "fmul32 (Fin x) (Fin y) = fl32 (x * y)"
| "fmul32 NaN b = NaN"
| "fmul32 a NaN = NaN"
| "fmul32 a b =
     (if fsign a * fsign b = 0 then NaN else if 0 < fsign a * fsign b then PInf else NInf)"

fun fdiv32 :: "fval \<Rightarrow> fval \<Rightarrow> fval" where
  "fdiv32 (Fin x) (Fin y) =
     (if y = 0 then (if x = 0 then NaN else if 0 < x then PInf else NInf)
      else fl32 (x / y))"
| "fdiv32 NaN b = NaN"
| "fdiv32 a NaN = NaN"
| "fdiv32 (Fin x) b = Fin 0"
| "fdiv32 a (Fin y) = (if (0 < fsign a) = (0 \<le> y) then PInf else NInf)"
| "fdiv32 a b = NaN"

fun fsqrt32 :: "fval \<Rightarrow> fval" where
  "fsqrt32 (Fin x) = (if x < 0 then NaN else fl32 (sqrt x))"
| "fsqrt32 PInf = PInf"
| "fsqrt32 a = NaN"

section \<open>Configuration and rollouts\<close>

record config =
  rl_discount_factor :: real
  gae_lambda :: real
  gail_no_action :: bool
  gail_vanilla_reward :: bool
  ppo_epoch :: nat
  rollout_length :: nat
  batch_size :: nat
  discriminator_update_freq :: nat
  ppo_clip :: real
  entropy_loss_coeff :: real
  value_loss_coeff :: real
  gail_entropy_loss_coeff :: real

text \<open>
  A rollout is the dictionary the collecting loop hands to \<^verbatim>\<open>store_episode\<close>: the
  observations (one more than transitions), the actions and their values before the
  activation, the done flags and the rewards, and the two
  entries \<^verbatim>\<open>"adv"\<close> and \<^verbatim>\<open>"ret"\<close> that \<^verbatim>\<open>_compute_gae\<close> writes. The done
  flags are numbers (0 or 1), as the code subtracts them from 1. These are the seven keys
  of the replay buffer as well, so a batch sampled from the buffer has the same type.
\<close>

record ('ob, 'ac) rollout =
  ob :: 'ob
  ac :: 'ac
  ac_before_activation :: 'ac
  dones :: "real list"
  rew :: "real list"
  adv :: "fval list"
  ret :: "real list"

section \<open>Generalized advantage estimation\<close>

text \<open>
  The loop \<^verbatim>\<open>for t in reversed(range(T))\<close> of \<^verbatim>\<open>_compute_gae\<close>, over the
  list of the indices still to visit. The state is the array \<^verbatim>\<open>adv\<close> and the variable
  \<^verbatim>\<open>lastgaelam\<close>. Reading a list or an array out of range raises IndexError.
\<close>

fun gae_loop ::
  "real \<Rightarrow> real \<Rightarrow> real list \<Rightarrow> real list \<Rightarrow> real list \<Rightarrow> nat list \<Rightarrow>
     real list \<times> real \<Rightarrow> py_error + (real list \<times> real)" where
  "gae_loop g l dn rw vpred [] (advs, lastgaelam) = Inr (advs, lastgaelam)"
| "gae_loop g l dn rw vpred (t # ts) (advs, lastgaelam) =
     (if length dn \<le> t then Inl IndexError
      else if length rw \<le> t then Inl IndexError
      else if length vpred \<le> t + 1 then Inl IndexError
      else if length advs \<le> t then Inl IndexError
      else
        let nonterminal = 1 - dn ! t;
            delta = rw ! t + g * vpred ! (t + 1) * nonterminal - vpred ! t;
            v = delta + g * l * nonterminal * lastgaelam
        in gae_loop g l dn rw vpred ts (advs[t := v], v))"

text \<open>
  Lines 113 to 137: the value predictions of the critic on the normalized observations,
  the assertion on their number, and the loop. \<^verbatim>\<open>np.empty\<close> gives an array of
  unspecified contents; every cell is written by the loop, and the model starts from
  zeros. The observation normalizer and the critic are collaborators of the agent and
  are parameters here.
\<close>

definition gae_advantages ::
  "config \<Rightarrow> ('ob \<Rightarrow> 'ob) \<Rightarrow> ('ob \<Rightarrow> real list) \<Rightarrow> ('ob, 'ac) rollout \<Rightarrow> py_error + real list" where
  "gae_advantages cfg normalizer critic rollouts =
     (let T = length (dones rollouts);
          vpred = critic (normalizer (ob rollouts))
      in if length vpred \<noteq> T + 1 then Inl AssertionError
         else
           case gae_loop (rl_discount_factor cfg) (gae_lambda cfg) (dones rollouts)
                  (rew rollouts) vpred (rev [0..<T]) (replicate T 0, 0) of
             Inl e \<Rightarrow> Inl e
           | Inr (advs, lastgaelam) \<Rightarrow> Inr advs)"

text \<open>The mean of a tensor in the idealised arithmetic, for the losses of the training
  round.\<close>

definition mean :: "real list \<Rightarrow> real" where
  "mean xs = sum_list xs / real (length xs)"

text \<open>
  \<^verbatim>\<open>adv.mean()\<close> and \<^verbatim>\<open>adv.std()\<close> on the array \<^verbatim>\<open>adv\<close> of 32-bit
  floats, as numpy computes them: the sum of the elements divided by their number, and
  the square root of the mean of the squared differences from the mean (the population
  standard deviation), every operation rounded to 32 bits. The order in which numpy adds
  the elements of an array depends on its length and on the release; the model adds them
  from left to right, and the theorems evaluate sums of two elements or of zeros only,
  where each order gives the same float.
\<close>

definition sum32 :: "fval list \<Rightarrow> fval" where
  "sum32 xs = foldl fadd32 (Fin 0) xs"

definition mean32 :: "fval list \<Rightarrow> fval" where
  "mean32 xs = fdiv32 (sum32 xs) (fl32 (real (length xs)))"

definition std32 :: "fval list \<Rightarrow> fval" where
  "std32 xs =
     (let arrmean = mean32 xs;
          x = map (\<lambda>a. fsub32 a arrmean) xs;
          x2 = map (\<lambda>d. fmul32 d d) x
      in fsqrt32 (fdiv32 (sum32 x2) (fl32 (real (length xs)))))"

text \<open>
  \<^verbatim>\<open>((adv - adv.mean()) / adv.std()).tolist()\<close>, line 145, on the 32-bit floats
  that the array holds for the advantages of the loop. On an empty array numpy's mean and
  standard deviation are not-a-number and the elementwise result is the empty array.
\<close>

definition standardize :: "real list \<Rightarrow> fval list" where
  "standardize advs =
     (if advs = [] then []
      else
        let a = map fl32 advs;
            m = mean32 a;
            s = std32 a
        in map (\<lambda>x. fdiv32 (fsub32 x m) s) a)"

text \<open>
  \<^verbatim>\<open>_compute_gae\<close>. \<^verbatim>\<open>vpred[:-1]\<close> is all but the last prediction. The two
  assertions \<^verbatim>\<open>np.isfinite(...).all()\<close> are made before the normalization, on the
  advantages and returns of the loop; they hold of every list of reals and have no
  branch in the model.
\<close>

definition compute_gae ::
  "config \<Rightarrow> ('ob \<Rightarrow> 'ob) \<Rightarrow> ('ob \<Rightarrow> real list) \<Rightarrow> ('ob, 'ac) rollout \<Rightarrow> py_error + ('ob, 'ac) rollout" where
  "compute_gae cfg normalizer critic rollouts =
     (case gae_advantages cfg normalizer critic rollouts of
        Inl e \<Rightarrow> Inl e
      | Inr advs \<Rightarrow>
          let vpred = critic (normalizer (ob rollouts));
              rets = map2 (+) advs (butlast vpred)
          in Inr (rollouts\<lparr>adv := standardize advs, ret := rets\<rparr>))"

text \<open>
  The recursion as the specification writes it, for the comparison with the loop: the
  advantage at step \<open>t\<close> of a rollout of length \<open>T\<close>, with \<open>lastgaelam\<close> the advantage
  at step \<open>t + 1\<close> and 0 past the end.
\<close>

function spec_advantage ::
  "real \<Rightarrow> real \<Rightarrow> real list \<Rightarrow> real list \<Rightarrow> real list \<Rightarrow> nat \<Rightarrow> nat \<Rightarrow> real" where
  "spec_advantage g l dn rw V T t =
     (if T \<le> t then 0
      else
        let nonterminal = 1 - dn ! t;
            delta = rw ! t + g * V ! (t + 1) * nonterminal - V ! t
        in delta + g * l * nonterminal * spec_advantage g l dn rw V T (t + 1))"
  by pat_completeness auto
termination
  by (relation "measure (\<lambda>(g, l, dn, rw, V, T, t). T - t)") auto

definition spec_return ::
  "real \<Rightarrow> real \<Rightarrow> real list \<Rightarrow> real list \<Rightarrow> real list \<Rightarrow> nat \<Rightarrow> nat \<Rightarrow> real" where
  "spec_return g l dn rw V T t = spec_advantage g l dn rw V T t + V ! t"

declare spec_advantage.simps [simp del]

section \<open>The imitation reward\<close>

text \<open>
  \<^verbatim>\<open>predict_reward\<close>, lines 85 to 101. \<^verbatim>\<open>torch.sigmoid\<close> and the two reward
  formulas act on every element of the discriminator's output; \<open>vanilla_reward\<close> and
  \<open>symmetric_reward\<close> are what lines 96 to 100 compute from one logit.
\<close>

definition eps :: real where
  "eps = 1 / 10 ^ 20"

definition sigmoid :: "real \<Rightarrow> real" where
  "sigmoid x = 1 / (1 + exp (- x))"

definition vanilla_reward :: "real \<Rightarrow> real" where
  "vanilla_reward x = (let s = sigmoid x in - ln (1 - s + eps))"

definition symmetric_reward :: "real \<Rightarrow> real" where
  "symmetric_reward x = (let s = sigmoid x in ln (s + eps) - ln (1 - s + eps))"

text \<open>\<^verbatim>\<open>Tensor.item()\<close>: the value of a tensor of exactly one element, an error on any
  other number of elements.\<close>

definition item :: "real list \<Rightarrow> py_error + real" where
  "item t = (case t of [x] \<Rightarrow> Inr x | _ \<Rightarrow> Inl ValueError)"

text \<open>The discriminator network is a parameter: it maps the normalized observation and
  the action, when there is one, to the tensor of logits.\<close>

definition predict_reward ::
  "config \<Rightarrow> ('ob \<Rightarrow> 'ob) \<Rightarrow> ('ob \<Rightarrow> 'ac option \<Rightarrow> real list) \<Rightarrow> 'ob \<Rightarrow> 'ac option
     \<Rightarrow> py_error + real" where
  "predict_reward cfg normalizer discriminator ob0 ac0 =
     (let ob1 = normalizer ob0;
          ac1 = (if gail_no_action cfg then None else ac0);
          logits = discriminator ob1 ac1;
          reward = (if gail_vanilla_reward cfg then map vanilla_reward logits
                    else map symmetric_reward logits)
      in item reward)"

section \<open>Distributions\<close>

subsection \<open>TanhNormal\<close>

text \<open>\<^verbatim>\<open>torch.clamp(x, lo, hi)\<close> on one element.\<close>

definition clamp :: "real \<Rightarrow> real \<Rightarrow> real \<Rightarrow> real" where
  "clamp lo hi x = min (max x lo) hi"

text \<open>
  Two tensors are broadcast to a common shape: equal shapes stay, a tensor of one element
  is repeated, anything else is an error.
\<close>

definition broadcast_all :: "real list \<Rightarrow> real list \<Rightarrow> py_error + (real list \<times> real list)" where
  "broadcast_all a b =
     (if length a = length b then Inr (a, b)
      else if length a = 1 then Inr (replicate (length b) (hd a), b)
      else if length b = 1 then Inr (a, replicate (length a) (hd b))
      else Inl RuntimeError)"

text \<open>
  \<^verbatim>\<open>torch.distributions.Normal(loc, scale)\<close>: the parameters are broadcast, and the
  library's validation of arguments refuses a scale that is not positive.
\<close>

datatype Normal = Normal (loc: "real list") (scale: "real list")

definition torch_Normal :: "real list \<Rightarrow> real list \<Rightarrow> py_error + Normal" where
  "torch_Normal l s =
     (case broadcast_all l s of
        Inl e \<Rightarrow> Inl e
      | Inr (l', s') \<Rightarrow> if list_all (\<lambda>x. 0 < x) s' then Inr (Normal l' s') else Inl ValueError)"

text \<open>The mean of \<^verbatim>\<open>torch.distributions.Normal\<close> is its \<^verbatim>\<open>loc\<close>.\<close>

definition Normal_mean :: "Normal \<Rightarrow> real list" where
  "Normal_mean d = loc d"

text \<open>
  The class \<^verbatim>\<open>TanhNormal_\<close> (written \<open>TanhNormal_inner\<close> here): a transformed
  distribution over a normal base, whose property \<^verbatim>\<open>mean\<close> is the hyperbolic
  tangent of the base's mean.
\<close>

datatype TanhNormal_inner = TanhNormal_inner (base_dist: Normal)

definition TanhNormal_inner_init :: "real list \<Rightarrow> real list \<Rightarrow> py_error + TanhNormal_inner" where
  "TanhNormal_inner_init l s =
     (case torch_Normal l s of Inl e \<Rightarrow> Inl e | Inr d \<Rightarrow> Inr (TanhNormal_inner d))"

definition TanhNormal_inner_mean :: "TanhNormal_inner \<Rightarrow> real list" where
  "TanhNormal_inner_mean d = map tanh (Normal_mean (base_dist d))"

text \<open>
  \<^verbatim>\<open>TanhNormal\<close> wraps it in \<^verbatim>\<open>torch.distributions.Independent\<close>, which
  refuses to reinterpret more dimensions than the batch has (one, for a list) and whose
  \<^verbatim>\<open>mean\<close> is the mean of the wrapped distribution. The constructor clamps the
  mean it is given to the interval from -9 to 9.
\<close>

datatype TanhNormal =
  TanhNormal (independent_base_dist: TanhNormal_inner) (reinterpreted_batch_ndims: nat)

definition TanhNormal_init :: "real list \<Rightarrow> real list \<Rightarrow> nat \<Rightarrow> py_error + TanhNormal" where
  "TanhNormal_init mean0 std0 event_dim =
     (case TanhNormal_inner_init (map (clamp (- 9) 9) mean0) std0 of
        Inl e \<Rightarrow> Inl e
      | Inr d \<Rightarrow> if 1 < event_dim then Inl ValueError else Inr (TanhNormal d event_dim))"

definition TanhNormal_mean :: "TanhNormal \<Rightarrow> real list" where
  "TanhNormal_mean d = TanhNormal_inner_mean (independent_base_dist d)"

definition TanhNormal_mode :: "TanhNormal \<Rightarrow> real list" where
  "TanhNormal_mode d = TanhNormal_mean d"

subsection \<open>Categorical\<close>

text \<open>
  The base class \<^verbatim>\<open>torch.distributions.Categorical\<close> over a batch of logits vectors:
  it normalizes each vector by its log-sum-exp, takes the probabilities as the
  exponentials and the entropy as minus the sum of logit times probability.
\<close>

datatype Categorical = Categorical (logits: "real list list")

definition logsumexp :: "real list \<Rightarrow> real" where
  "logsumexp l = ln (sum_list (map exp l))"

definition torch_Categorical_entropy :: "Categorical \<Rightarrow> real list" where
  "torch_Categorical_entropy d =
     map (\<lambda>l. let normalized = map (\<lambda>x. x - logsumexp l) l;
                   probs = map exp normalized
               in - sum_list (map2 (*) normalized probs))
       (logits d)"

text \<open>\<^verbatim>\<open>Categorical.entropy\<close> of the repository, line 48.\<close>

definition Categorical_entropy :: "Categorical \<Rightarrow> real list" where
  "Categorical_entropy d = map (\<lambda>h. h * 10) (torch_Categorical_entropy d)"

subsection \<open>MixedDistribution\<close>

text \<open>
  A sub-distribution is known by its methods only. \<^verbatim>\<open>base_dists\<close> is an ordered
  dictionary: a list of keys with their distributions, in order. The value given to
  \<^verbatim>\<open>log_prob\<close> is a dictionary, and reading a key it does not have raises KeyError.
\<close>

record 'v dist =
  dist_log_prob :: "'v \<Rightarrow> py_error + real list"
  dist_entropy :: "py_error + real list"

text \<open>The comprehension of \<^verbatim>\<open>log_prob\<close>, lines 228 to 230.\<close>

fun log_prob_items :: "('k \<times> 'v dist) list \<Rightarrow> ('k \<rightharpoonup> 'v) \<Rightarrow> py_error + real list list" where
  "log_prob_items [] x = Inr []"
| "log_prob_items ((k, d) # ds) x =
     (case x k of
        None \<Rightarrow> Inl KeyError
      | Some v \<Rightarrow>
          (case dist_log_prob d v of
             Inl e \<Rightarrow> Inl e
           | Inr t \<Rightarrow>
               (case log_prob_items ds x of
                  Inl e \<Rightarrow> Inl e
                | Inr ts \<Rightarrow> Inr (t # ts))))"

text \<open>
  \<^verbatim>\<open>torch.stack(ts, -1).sum(-1, keepdim=True)\<close>: stacking needs at least one tensor
  and equal shapes; the sum runs over the stacked tensors, position by position.
\<close>

definition stack_sum :: "real list list \<Rightarrow> py_error + real list" where
  "stack_sum ts =
     (case ts of
        [] \<Rightarrow> Inl RuntimeError
      | t # rest \<Rightarrow>
          if list_all (\<lambda>u. length u = length t) rest
          then Inr (map (\<lambda>i. sum_list (map (\<lambda>u. u ! i) ts)) [0..<length t])
          else Inl RuntimeError)"

definition MixedDistribution_log_prob ::
  "('k \<times> 'v dist) list \<Rightarrow> ('k \<rightharpoonup> 'v) \<Rightarrow> py_error + real list" where
  "MixedDistribution_log_prob base_dists x =
     (case log_prob_items base_dists x of Inl e \<Rightarrow> Inl e | Inr ts \<Rightarrow> stack_sum ts)"

text \<open>
  \<^verbatim>\<open>entropy\<close>, line 234: Python's \<^verbatim>\<open>sum\<close> starts from the number 0 and adds the
  entropies from left to right, each addition broadcasting its operands. The number 0 is
  the tensor of the one element 0 here.
\<close>

fun entropy_items :: "('k \<times> 'v dist) list \<Rightarrow> py_error + real list list" where
  "entropy_items [] = Inr []"
| "entropy_items ((k, d) # ds) =
     (case dist_entropy d of
        Inl e \<Rightarrow> Inl e
      | Inr t \<Rightarrow> (case entropy_items ds of Inl e \<Rightarrow> Inl e | Inr ts \<Rightarrow> Inr (t # ts)))"

definition tensor_add :: "real list \<Rightarrow> real list \<Rightarrow> py_error + real list" where
  "tensor_add a b =
     (case broadcast_all a b of Inl e \<Rightarrow> Inl e | Inr (a', b') \<Rightarrow> Inr (map2 (+) a' b'))"

fun py_sum :: "real list \<Rightarrow> real list list \<Rightarrow> py_error + real list" where
  "py_sum acc [] = Inr acc"
| "py_sum acc (t # ts) =
     (case tensor_add acc t of Inl e \<Rightarrow> Inl e | Inr acc' \<Rightarrow> py_sum acc' ts)"

definition MixedDistribution_entropy :: "('k \<times> 'v dist) list \<Rightarrow> py_error + real list" where
  "MixedDistribution_entropy base_dists =
     (case entropy_items base_dists of Inl e \<Rightarrow> Inl e | Inr ts \<Rightarrow> py_sum [0] ts)"

section \<open>The training round\<close>

text \<open>
  The parameters of a network are the list of its weights. What the agent consumes from
  its collaborators is gathered in one record: the observation normalizer, the forward
  passes of the three networks as functions of their parameters, the step of an
  optimizer on a loss (\<^verbatim>\<open>zero_grad\<close>, \<^verbatim>\<open>backward\<close>, \<^verbatim>\<open>sync_grads\<close> and
  \<^verbatim>\<open>step\<close> together: the loss is given as a function of the parameters it is
  differentiated in, and is \<open>None\<close> where its value is not a finite number), the step of
  a learning-rate scheduler on its optimizer, the replay buffer's \<^verbatim>\<open>sample\<close> and
  \<^verbatim>\<open>clear\<close>, the batches of one pass over the expert data loader (the pass is
  numbered, as the loader shuffles), and the entropy of
  \<^verbatim>\<open>torch.distributions.Bernoulli\<close> built from one positional argument.
\<close>

type_synonym params = "real list"

record ('ob, 'ac, 'opt, 'buf) collaborators =
  normalize_ob :: "'ob \<Rightarrow> 'ob"
  actor_act :: "params \<Rightarrow> 'ob \<Rightarrow> 'ac \<Rightarrow> real list \<times> real list"
  critic_forward :: "params \<Rightarrow> 'ob \<Rightarrow> real list"
  discriminator_forward :: "params \<Rightarrow> 'ob \<Rightarrow> 'ac option \<Rightarrow> real list"
  optim_step :: "(params \<Rightarrow> real option) \<Rightarrow> params \<Rightarrow> 'opt \<Rightarrow> params \<times> 'opt"
  lr_scheduler_step :: "'opt \<Rightarrow> 'opt"
  buffer_sample :: "'buf \<Rightarrow> nat \<Rightarrow> py_error + (('ob, 'ac) rollout \<times> 'buf)"
  buffer_clear :: "'buf \<Rightarrow> 'buf"
  data_loader_iter :: "nat \<Rightarrow> ('ob \<times> 'ac) list"
  bernoulli_entropy :: "real list \<Rightarrow> py_error + real list"

text \<open>
  The state of the agent that a round reads and writes. Two fields are not in the
  code and only record what happened: \<open>events\<close> lists, in order, the syncs of the
  old actor and the updates of a round; \<open>breakpoints\<close> counts the calls of
  \<^verbatim>\<open>ipdb.set_trace()\<close>, after which the run goes on with the next statement.
\<close>

datatype event = SyncOldActor | PolicyUpdate | DiscriminatorUpdate | BufferClear

record ('ob, 'ac, 'opt, 'buf) agent =
  actor :: params
  old_actor :: params
  critic :: params
  discriminator :: params
  actor_optim :: 'opt
  critic_optim :: 'opt
  discriminator_optim :: 'opt
  buffer :: 'buf
  data_iter :: "('ob \<times> 'ac) list"
  loader_passes :: nat
  events :: "event list"
  breakpoints :: nat

text \<open>
  Modelled from the spec: \<^verbatim>\<open>_copy_target_network\<close> is a method of the base class
  \<^verbatim>\<open>BaseAgent\<close>, which is not among the sources. The specification has it deep-copy
  the weights of the source network into the target network.
\<close>

definition copy_target_network :: "params \<Rightarrow> params \<Rightarrow> params" where
  "copy_target_network target source = source"

definition isfinite :: "fval \<Rightarrow> bool" where
  "isfinite v = (case v of Fin x \<Rightarrow> True | _ \<Rightarrow> False)"

definition fin_value :: "fval \<Rightarrow> real" where
  "fin_value v = (case v of Fin x \<Rightarrow> x | _ \<Rightarrow> 0)"

text \<open>
  The actor's loss of \<^verbatim>\<open>_update_policy\<close>, lines 318 to 338, from the
  log-probabilities and entropies of the current actor, the log-probabilities of the old
  actor and the advantages of the batch. The mean of an empty tensor and any
  arithmetic on an advantage that is not finite give no finite number.
\<close>

definition actor_loss_value ::
  "config \<Rightarrow> real list \<times> real list \<Rightarrow> real list \<Rightarrow> fval list \<Rightarrow> real option" where
  "actor_loss_value cfg cur old_log_pi advs =
     (let log_pi = fst cur;
          ent = snd cur;
          ratio = map2 (\<lambda>x y. exp (x - y)) log_pi old_log_pi;
          a = map fin_value advs;
          surr1 = map2 (*) ratio a;
          surr2 = map2 (*) (map (clamp (1 - ppo_clip cfg) (1 + ppo_clip cfg)) ratio) a
      in if \<not> list_all isfinite advs \<or> ent = [] \<or> surr1 = [] then None
         else Some (- mean (map2 min surr1 surr2) + entropy_loss_coeff cfg * mean ent))"

definition value_loss_value :: "config \<Rightarrow> real list \<Rightarrow> real list \<Rightarrow> real option" where
  "value_loss_value cfg rets value_pred =
     (if rets = [] \<or> value_pred = [] then None
      else Some (value_loss_coeff cfg * mean (map2 (\<lambda>r v. (r - v)\<^sup>2) rets value_pred)))"

definition set_trace ::
  "('ob, 'ac, 'opt, 'buf) agent \<Rightarrow> ('ob, 'ac, 'opt, 'buf) agent" where
  "set_trace s = s\<lparr>breakpoints := breakpoints s + 1\<rparr>"

text \<open>
  \<^verbatim>\<open>_update_policy\<close>. The old actor is evaluated once, for \<^verbatim>\<open>old_log_pi\<close>;
  \<^verbatim>\<open>old_log_pi.min()\<close> raises on an empty batch. The importance ratio, an
  exponential of reals, is always finite, so the second guard tests the advantages.
  The fields of a batch and the outputs of the networks on it are taken to have one
  entry for each transition of the batch, as the replay buffer stores them.
  The diagnostics collected in \<^verbatim>\<open>info\<close> are not part of the state and are left out.
\<close>

definition update_policy ::
  "('ob, 'ac, 'opt, 'buf) collaborators \<Rightarrow> config \<Rightarrow> ('ob, 'ac, 'opt, 'buf) agent
     \<Rightarrow> ('ob, 'ac) rollout \<Rightarrow> py_error + ('ob, 'ac, 'opt, 'buf) agent" where
  "update_policy E cfg s0 transitions =
     (let s = s0\<lparr>events := events s0 @ [PolicyUpdate]\<rparr>;
          ob1 = normalize_ob E (ob transitions);
          a_z = ac_before_activation transitions;
          old_log_pi = fst (actor_act E (old_actor s) ob1 a_z)
      in if old_log_pi = [] then Inl RuntimeError
         else
           let s1 = (if Min (set old_log_pi) < - 100 then set_trace s else s);
               actor_loss =
                 (\<lambda>theta. actor_loss_value cfg (actor_act E theta ob1 a_z) old_log_pi
                             (adv transitions));
               s2 = (if \<not> list_all isfinite (adv transitions) then set_trace s1 else s1);
               value_loss =
                 (\<lambda>theta. value_loss_value cfg (ret transitions) (critic_forward E theta ob1));
               (actor', actor_optim') = optim_step E actor_loss (actor s2) (actor_optim s2);
               (critic', critic_optim') = optim_step E value_loss (critic s2) (critic_optim s2)
           in Inr (s2\<lparr>actor := actor', actor_optim := actor_optim',
                       critic := critic', critic_optim := critic_optim'\<rparr>))"

text \<open>
  The loss of \<^verbatim>\<open>_update_discriminator\<close>, lines 259 to 276:
  \<^verbatim>\<open>BCEWithLogitsLoss\<close> against the label 0 is the mean of \<open>ln (1 + exp x)\<close> and
  against the label 1 the mean of \<open>ln (1 + exp (- x))\<close>.
\<close>

definition gail_loss_value ::
  "('ob, 'ac, 'opt, 'buf) collaborators \<Rightarrow> config \<Rightarrow> real list \<Rightarrow> real list \<Rightarrow> real option" where
  "gail_loss_value E cfg p_logit e_logit =
     (case bernoulli_entropy E (p_logit @ e_logit) of
        Inl e \<Rightarrow> None
      | Inr h \<Rightarrow>
          if p_logit = [] \<or> e_logit = [] \<or> h = [] then None
          else
            let p_loss = mean (map (\<lambda>x. ln (1 + exp x)) p_logit);
                e_loss = mean (map (\<lambda>x. ln (1 + exp (- x))) e_logit);
                entropy_loss = - gail_entropy_loss_coeff cfg * mean h
            in Some (p_loss + e_loss + entropy_loss))"

definition update_discriminator ::
  "('ob, 'ac, 'opt, 'buf) collaborators \<Rightarrow> config \<Rightarrow> ('ob, 'ac, 'opt, 'buf) agent
     \<Rightarrow> ('ob, 'ac) rollout \<Rightarrow> 'ob \<times> 'ac \<Rightarrow> py_error + ('ob, 'ac, 'opt, 'buf) agent" where
  "update_discriminator E cfg s0 policy_data expert_data =
     (let s = s0\<lparr>events := events s0 @ [DiscriminatorUpdate]\<rparr>;
          p_o = normalize_ob E (ob policy_data);
          p_ac = (if gail_no_action cfg then None else Some (ac policy_data));
          e_o = normalize_ob E (fst expert_data);
          e_ac = (if gail_no_action cfg then None else Some (snd expert_data));
          logits = (\<lambda>theta. discriminator_forward E theta p_o p_ac
                             @ discriminator_forward E theta e_o e_ac)
      in case bernoulli_entropy E (logits (discriminator s)) of
           Inl e \<Rightarrow> Inl e
         | Inr h \<Rightarrow>
             let gail_loss =
                   (\<lambda>theta. gail_loss_value E cfg (discriminator_forward E theta p_o p_ac)
                               (discriminator_forward E theta e_o e_ac));
                 (discriminator', optim') =
                   optim_step E gail_loss (discriminator s) (discriminator_optim s)
             in Inr (s\<lparr>discriminator := discriminator', discriminator_optim := optim'\<rparr>))"

text \<open>The first loop of \<^verbatim>\<open>train\<close>, lines 206 to 209, with the number of batches
  still to run.\<close>

fun policy_loop ::
  "('ob, 'ac, 'opt, 'buf) collaborators \<Rightarrow> config \<Rightarrow> nat \<Rightarrow> ('ob, 'ac, 'opt, 'buf) agent
     \<Rightarrow> py_error + ('ob, 'ac, 'opt, 'buf) agent" where
  "policy_loop E cfg 0 s = Inr s"
| "policy_loop E cfg (Suc n) s =
     (case buffer_sample E (buffer s) (batch_size cfg) of
        Inl e \<Rightarrow> Inl e
      | Inr (policy_data, b) \<Rightarrow>
          (case update_policy E cfg (s\<lparr>buffer := b\<rparr>) policy_data of
             Inl e \<Rightarrow> Inl e
           | Inr s' \<Rightarrow> policy_loop E cfg n s'))"

text \<open>
  \<^verbatim>\<open>next(self._data_iter)\<close> with its handler, lines 214 to 218: an exhausted iterator
  is replaced by a fresh pass over the loader, and an empty fresh pass raises
  StopIteration out of the handler.
\<close>

definition next_expert ::
  "('ob, 'ac, 'opt, 'buf) collaborators \<Rightarrow> ('ob, 'ac, 'opt, 'buf) agent
     \<Rightarrow> py_error + (('ob \<times> 'ac) \<times> ('ob, 'ac, 'opt, 'buf) agent)" where
  "next_expert E s =
     (case data_iter s of
        x # xs \<Rightarrow> Inr (x, s\<lparr>data_iter := xs\<rparr>)
      | [] \<Rightarrow>
          (case data_loader_iter E (loader_passes s + 1) of
             [] \<Rightarrow> Inl StopIteration
           | x # xs \<Rightarrow> Inr (x, s\<lparr>data_iter := xs, loader_passes := loader_passes s + 1\<rparr>)))"

fun discriminator_loop ::
  "('ob, 'ac, 'opt, 'buf) collaborators \<Rightarrow> config \<Rightarrow> nat \<Rightarrow> ('ob, 'ac, 'opt, 'buf) agent
     \<Rightarrow> py_error + ('ob, 'ac, 'opt, 'buf) agent" where
  "discriminator_loop E cfg 0 s = Inr s"
| "discriminator_loop E cfg (Suc n) s =
     (case buffer_sample E (buffer s) (batch_size cfg) of
        Inl e \<Rightarrow> Inl e
      | Inr (policy_data, b) \<Rightarrow>
          (case next_expert E (s\<lparr>buffer := b\<rparr>) of
             Inl e \<Rightarrow> Inl e
           | Inr (expert_data, s1) \<Rightarrow>
               (case update_discriminator E cfg s1 policy_data expert_data of
                  Inl e \<Rightarrow> Inl e
                | Inr s' \<Rightarrow> discriminator_loop E cfg n s')))"

text \<open>
  \<^verbatim>\<open>train\<close>, lines 195 to 222. Integer division by a zero batch size or update
  frequency raises ZeroDivisionError. The dictionary of diagnostics that the method
  returns is left out: the result is the state after the round.
\<close>

definition train ::
  "('ob, 'ac, 'opt, 'buf) collaborators \<Rightarrow> config \<Rightarrow> ('ob, 'ac, 'opt, 'buf) agent
     \<Rightarrow> py_error + ('ob, 'ac, 'opt, 'buf) agent" where
  "train E cfg s =
     (let s1 = s\<lparr>actor_optim := lr_scheduler_step E (actor_optim s),
                 critic_optim := lr_scheduler_step E (critic_optim s),
                 discriminator_optim := lr_scheduler_step E (discriminator_optim s)\<rparr>;
          s2 = s1\<lparr>old_actor := copy_target_network (old_actor s1) (actor s1),
                  events := events s1 @ [SyncOldActor]\<rparr>
      in if batch_size cfg = 0 then Inl ZeroDivisionError
         else
           (case policy_loop E cfg (ppo_epoch cfg * rollout_length cfg div batch_size cfg) s2 of
              Inl e \<Rightarrow> Inl e
            | Inr s3 \<Rightarrow>
                if discriminator_update_freq cfg = 0 then Inl ZeroDivisionError
                else
                  (case discriminator_loop E cfg
                          (rollout_length cfg div batch_size cfg div discriminator_update_freq cfg)
                          s3 of
                     Inl e \<Rightarrow> Inl e
                   | Inr s4 \<Rightarrow>
                       Inr (s4\<lparr>buffer := buffer_clear E (buffer s4),
                               events := events s4 @ [BufferClear]\<rparr>))))"

section \<open>Concrete inputs\<close>

text \<open>A configuration, a rollout and collaborators on which the theorems below are
  instantiated.\<close>

definition cfg0 :: config where
  "cfg0 = \<lparr>rl_discount_factor = 1 / 2, gae_lambda = 1, gail_no_action = False,
     gail_vanilla_reward = True, ppo_epoch = 1, rollout_length = 1, batch_size = 1,
     discriminator_update_freq = 1, ppo_clip = 1 / 5, entropy_loss_coeff = 0,
     value_loss_coeff = 1, gail_entropy_loss_coeff = 0\<rparr>"

definition rollout0 :: "(unit, unit) rollout" where
  "rollout0 = \<lparr>ob = (), ac = (), ac_before_activation = (), dones = [0, 0], rew = [1, 3],
     adv = [], ret = []\<rparr>"

definition cfg1 :: config where
  "cfg1 = cfg0\<lparr>rl_discount_factor := 1\<rparr>"

definition rollout_zero :: "(unit, unit) rollout" where
  "rollout_zero = \<lparr>ob = (), ac = (), ac_before_activation = (), dones = [0, 0], rew = [0, 0],
     adv = [], ret = []\<rparr>"

definition critic_ones :: "unit \<Rightarrow> real list" where
  "critic_ones x = [1, 1, 1]"

definition critic_twos :: "unit \<Rightarrow> real list" where
  "critic_twos x = [2, 2, 2]"

definition critic_zeros :: "unit \<Rightarrow> real list" where
  "critic_zeros x = [0, 0, 0]"

definition rollout_tiny :: "(unit, unit) rollout" where
  "rollout_tiny = \<lparr>ob = (), ac = (), ac_before_activation = (), dones = [0, 0],
     rew = [1 / 2 ^ 100, 0], adv = [], ret = []\<rparr>"

definition rollout_huge :: "(unit, unit) rollout" where
  "rollout_huge = \<lparr>ob = (), ac = (), ac_before_activation = (), dones = [0, 0],
     rew = [2 ^ 65, 0], adv = [], ret = []\<rparr>"

definition cfg_no_action :: config where
  "cfg_no_action = cfg0\<lparr>gail_no_action := True\<rparr>"

definition disc0 :: "unit \<Rightarrow> real option \<Rightarrow> real list" where
  "disc0 x a = (case a of None \<Rightarrow> [0] | Some y \<Rightarrow> [y, y])"

definition dist_a :: "real dist" where
  "dist_a = \<lparr>dist_log_prob = (\<lambda>v. Inr [v, v + 1]), dist_entropy = Inr [1, 2]\<rparr>"

definition dist_b :: "real dist" where
  "dist_b = \<lparr>dist_log_prob = (\<lambda>v. Inr [2 * v, 0]), dist_entropy = Inr [3, 4]\<rparr>"

definition mixed0 :: "(string \<times> real dist) list" where
  "mixed0 = [(''a'', dist_a), (''b'', dist_b)]"

definition values0 :: "string \<rightharpoonup> real" where
  "values0 = [''a'' \<mapsto> 1, ''b'' \<mapsto> 2]"

definition cfg_two :: config where
  "cfg_two = cfg0\<lparr>ppo_epoch := 2\<rparr>"

definition batch0 :: "(unit, unit) rollout" where
  "batch0 = \<lparr>ob = (), ac = (), ac_before_activation = (), dones = [0], rew = [1],
     adv = [Fin 1], ret = [1]\<rparr>"

definition E0 :: "(unit, unit, nat, nat) collaborators" where
  "E0 = \<lparr>normalize_ob = id,
          actor_act = (\<lambda>theta x a. ([sum_list theta], [1])),
          critic_forward = (\<lambda>theta x. theta),
          discriminator_forward = (\<lambda>theta x a. theta),
          optim_step = (\<lambda>loss theta opt. (map (\<lambda>w. w + 1) theta, opt + 1)),
          lr_scheduler_step = id,
          buffer_sample = (\<lambda>b n. Inr (batch0, b)),
          buffer_clear = (\<lambda>b. 0),
          data_loader_iter = (\<lambda>n. [((), ())]),
          bernoulli_entropy = (\<lambda>l. Inr l)\<rparr>"

definition agent0 :: "(unit, unit, nat, nat) agent" where
  "agent0 = \<lparr>actor = [0], old_actor = [5], critic = [0], discriminator = [0],
     actor_optim = 0, critic_optim = 0, discriminator_optim = 0, buffer = 1,
     data_iter = [], loader_passes = 0, events = [], breakpoints = 0\<rparr>"

definition agent1 :: "(unit, unit, nat, nat) agent" where
  "agent1 = \<lparr>actor = [2], old_actor = [0], critic = [2], discriminator = [1],
     actor_optim = 2, critic_optim = 2, discriminator_optim = 1, buffer = 0,
     data_iter = [], loader_passes = 1,
     events = [SyncOldActor, PolicyUpdate, PolicyUpdate, DiscriminatorUpdate, BufferClear],
     breakpoints = 0\<rparr>"

section \<open>The loop computes the recursion\<close>

lemma gae_loop_spec:
  assumes "length dn = T" "length rw = T" "length V = T + 1" "length advs = T" "k \<le> T"
    and "\<forall>t. k \<le> t \<and> t < T \<longrightarrow> advs ! t = spec_advantage g l dn rw V T t"
  shows "\<exists>advs' last'. gae_loop g l dn rw V (rev [0..<k]) (advs, spec_advantage g l dn rw V T k)
            = Inr (advs', last')
          \<and> length advs' = T
          \<and> (\<forall>t < T. advs' ! t = spec_advantage g l dn rw V T t)"
  using assms
proof (induction k arbitrary: advs)
  case 0
  then show ?case by simp
next
  case (Suc k)
  let ?v = "spec_advantage g l dn rw V T k"
  have kT: "k < T" using Suc.prems(5) by simp
  have step: "?v = (let nonterminal = 1 - dn ! k;
                        delta = rw ! k + g * V ! (k + 1) * nonterminal - V ! k
                    in delta + g * l * nonterminal * spec_advantage g l dn rw V T (Suc k))"
    using kT by (subst spec_advantage.simps) simp
  have inv: "\<forall>t. k \<le> t \<and> t < T \<longrightarrow> (advs[k := ?v]) ! t = spec_advantage g l dn rw V T t"
    using Suc.prems(4,6) kT by (auto simp: nth_list_update)
  have "\<exists>advs' last'. gae_loop g l dn rw V (rev [0..<k]) (advs[k := ?v], ?v) = Inr (advs', last')
          \<and> length advs' = T
          \<and> (\<forall>t < T. advs' ! t = spec_advantage g l dn rw V T t)"
    using Suc.IH [of "advs[k := ?v]"] Suc.prems(1-4) kT inv by simp
  moreover have "gae_loop g l dn rw V (rev [0..<Suc k]) (advs, spec_advantage g l dn rw V T (Suc k))
                   = gae_loop g l dn rw V (rev [0..<k]) (advs[k := ?v], ?v)"
    using Suc.prems(1-4) kT step by (simp add: Let_def)
  ultimately show ?case by simp
qed

lemma gae_advantages_spec:
  assumes "length (rew r) = length (dones r)"
    and "length (vf (nrm (ob r))) = length (dones r) + 1"
  shows "gae_advantages cfg nrm vf r =
           Inr (map (spec_advantage (rl_discount_factor cfg) (gae_lambda cfg) (dones r) (rew r)
                       (vf (nrm (ob r))) (length (dones r)))
                  [0..<length (dones r)])"
proof -
  let ?T = "length (dones r)"
  let ?V = "vf (nrm (ob r))"
  let ?A = "spec_advantage (rl_discount_factor cfg) (gae_lambda cfg) (dones r) (rew r) ?V ?T"
  have z: "?A ?T = 0" by (subst spec_advantage.simps) simp
  obtain advs' last' where
    run: "gae_loop (rl_discount_factor cfg) (gae_lambda cfg) (dones r) (rew r) ?V
            (rev [0..<?T]) (replicate ?T 0, ?A ?T) = Inr (advs', last')"
    and len: "length advs' = ?T" and vals: "\<forall>t < ?T. advs' ! t = ?A t"
    using gae_loop_spec [of "dones r" ?T "rew r" ?V "replicate ?T 0" ?T
        "rl_discount_factor cfg" "gae_lambda cfg"] assms
    by auto
  have "advs' = map ?A [0..<?T]"
    using len vals by (intro nth_equalityI) auto
  then show ?thesis
    using run assms(2) z by (simp add: gae_advantages_def Let_def)
qed

text \<open>
  C1. For a rollout of length \<open>T\<close> with as many rewards as done flags and \<open>T + 1\<close> value
  predictions, the advantages that \<^verbatim>\<open>_compute_gae\<close> has before it normalizes them are
  those of the backward recursion of the specification, and the returns it stores are
  these advantages plus the value predictions. For one transition with reward \<open>r\<close>, done
  flag 0 and predictions \<open>v0\<close>, \<open>v1\<close> the advantage is \<open>r + \<gamma> v1 - v0\<close>.
\<close>

theorem compute_gae_follows_recursion:
  assumes "length (rew r) = length (dones r)"
    and "length (vf (nrm (ob r))) = length (dones r) + 1"
  shows "gae_advantages cfg nrm vf r =
           Inr (map (spec_advantage (rl_discount_factor cfg) (gae_lambda cfg) (dones r) (rew r)
                       (vf (nrm (ob r))) (length (dones r)))
                  [0..<length (dones r)])
       \<and> (\<exists>r'. compute_gae cfg nrm vf r = Inr r'
             \<and> ret r' = map (spec_return (rl_discount_factor cfg) (gae_lambda cfg) (dones r) (rew r)
                              (vf (nrm (ob r))) (length (dones r)))
                          [0..<length (dones r)])
       \<and> gae_advantages cfg nrm (\<lambda>x. [v0, v1])
            \<lparr>ob = x, ac = y, ac_before_activation = z, dones = [0], rew = [rw0],
             adv = a, ret = b\<rparr>
           = Inr [rw0 + rl_discount_factor cfg * v1 - v0]"
proof (intro conjI)
  let ?T = "length (dones r)"
  let ?V = "vf (nrm (ob r))"
  let ?A = "spec_advantage (rl_discount_factor cfg) (gae_lambda cfg) (dones r) (rew r) ?V ?T"
  show advs: "gae_advantages cfg nrm vf r = Inr (map ?A [0..<?T])"
    using assms by (rule gae_advantages_spec)
  have "map2 (+) (map ?A [0..<?T]) (butlast ?V)
          = map (spec_return (rl_discount_factor cfg) (gae_lambda cfg) (dones r) (rew r) ?V ?T)
              [0..<?T]"
    using assms(2) by (intro nth_equalityI) (auto simp: spec_return_def nth_butlast)
  then show "\<exists>r'. compute_gae cfg nrm vf r = Inr r'
             \<and> ret r' = map (spec_return (rl_discount_factor cfg) (gae_lambda cfg) (dones r) (rew r)
                              ?V ?T) [0..<?T]"
    using advs by (simp add: compute_gae_def Let_def)
  show "gae_advantages cfg nrm (\<lambda>x. [v0, v1])
            \<lparr>ob = x, ac = y, ac_before_activation = z, dones = [0], rew = [rw0],
             adv = a, ret = b\<rparr>
           = Inr [rw0 + rl_discount_factor cfg * v1 - v0]"
    by (simp add: gae_advantages_def Let_def)
qed

theorem compute_gae_follows_recursion_witness:
  "length (rew rollout0) = length (dones rollout0)
   \<and> length [1, 2, 4 :: real] = length (dones rollout0) + 1
   \<and> gae_advantages cfg0 id (\<lambda>x. [1, 2, 4]) rollout0 = Inr [5 / 2, 3]
   \<and> (\<exists>r'. compute_gae cfg0 id (\<lambda>x. [1, 2, 4]) rollout0 = Inr r' \<and> ret r' = [7 / 2, 5])"
  using compute_gae_follows_recursion [where r = rollout0 and vf = "\<lambda>x. [1, 2, 4]"
      and nrm = id and cfg = cfg0 and ?v0.0 = 1 and ?v1.0 = 2 and ?rw0.0 = 1 and x = "()"
      and y = "()" and z = "()" and a = "[]" and b = "[]"]
  by (simp add: cfg0_def rollout0_def spec_return_def spec_advantage.simps upt_rec)

section \<open>Rounding to 32 bits\<close>

lemma round_half_even_of_int [simp]: "round_half_even (of_int j) = j"
  by (simp add: round_half_even_def)

lemma floor_log2_less:
  assumes "0 < x" "x < 2 powi j"
  shows "\<lfloor>log 2 x\<rfloor> < j"
proof -
  have "x < 2 powr (of_int j)" using assms(2) by (simp add: powr_real_of_int')
  then have "log 2 x < of_int j" using assms(1) by (simp add: log_less_iff)
  then show ?thesis by (simp add: floor_less_iff)
qed

lemma fl32_exact:
  assumes "x = of_int m * 2 powi k" and "\<bar>m\<bar> < 2 ^ 24" and "- 149 \<le> k" and "\<bar>x\<bar> < 2 ^ 128"
  shows "fl32 x = Fin x"
proof (cases "x = 0")
  case True
  then show ?thesis by (simp add: fl32_def)
next
  case False
  have "\<bar>x\<bar> = of_int \<bar>m\<bar> * 2 powi k" by (simp add: assms(1) abs_mult)
  also have "\<dots> < 2 ^ 24 * 2 powi k"
  proof -
    have "(of_int \<bar>m\<bar> :: real) < of_int (2 ^ 24)" using assms(2) by (simp only: of_int_less_iff)
    then show ?thesis by simp
  qed
  also have "\<dots> = 2 powi (k + 24)" by (simp add: power_int_add)
  finally have "\<lfloor>log 2 \<bar>x\<bar>\<rfloor> < k + 24"
    using False by (intro floor_log2_less) simp_all
  then have e: "exponent32 x \<le> k + 23" using assms(3) by (simp add: exponent32_def)
  define u where "u = ulp32 x"
  have u: "u = 2 powi (exponent32 x - 23)" by (simp add: u_def ulp32_def)
  have u_pos: "0 < u" by (simp add: u)
  define d where "d = nat (k - (exponent32 x - 23))"
  have k: "k = (exponent32 x - 23) + int d" using e by (simp add: d_def)
  have "(2 :: real) powi k = u * 2 ^ d"
    by (subst k, subst power_int_add) (simp_all add: u)
  then have "x = of_int (m * 2 ^ d) * u" by (simp add: assms(1))
  then have q: "x / u = of_int (m * 2 ^ d)" using u_pos by simp
  have "of_int (round_half_even (x / u)) * u = x"
    unfolding q round_half_even_of_int using q u_pos by (simp add: field_simps)
  then show ?thesis using False assms(4) by (simp add: fl32_def Let_def u_def)
qed

lemma fl32_underflow:
  assumes "0 \<le> x" "x < 2 powi (- 150)"
  shows "fl32 x = Fin 0"
proof (cases "x = 0")
  case True
  then show ?thesis by (simp add: fl32_def)
next
  case False
  then have pos: "0 < x" using assms(1) by simp
  have "\<lfloor>log 2 \<bar>x\<bar>\<rfloor> < - 150" using pos assms(2) by (intro floor_log2_less) simp_all
  then have e: "exponent32 x = - 126" by (simp add: exponent32_def)
  have u: "ulp32 x = 2 powi (- 149)" by (simp add: ulp32_def e)
  have "x / ulp32 x < 2 powi (- 150) / 2 powi (- 149)"
    unfolding u using assms(2) by (intro divide_strict_right_mono) simp_all
  also have "\<dots> = 1 / 2" by (simp add: power_int_minus field_simps)
  finally have lt: "x / ulp32 x < 1 / 2" .
  have ge: "0 \<le> x / ulp32 x" using pos by (simp add: u)
  have "x / ulp32 x < 1" using lt by linarith
  then have "\<lfloor>x / ulp32 x\<rfloor> = 0" using ge by (simp add: floor_eq_iff)
  then have "round_half_even (x / ulp32 x) = 0" using lt by (simp add: round_half_even_def)
  then show ?thesis using False by (simp add: fl32_def)
qed

lemma fl32_pow2_overflow:
  assumes "128 \<le> n"
  shows "fl32 (2 ^ n) = PInf"
proof -
  have "\<lfloor>log 2 \<bar>2 ^ n :: real\<bar>\<rfloor> = int n" by simp
  then have e: "exponent32 (2 ^ n) = int n" by (simp add: exponent32_def)
  define u where "u = ulp32 (2 ^ n)"
  have u: "u = 2 powi (int n - 23)" by (simp add: u_def ulp32_def e)
  have u_pos: "0 < u" by (simp add: u)
  have "(2 ^ n :: real) = 2 powi (int n - 23 + 23)" by simp
  also have "\<dots> = u * 2 ^ 23" by (subst power_int_add) (simp_all add: u)
  finally have p: "(2 ^ n :: real) = of_int (2 ^ 23) * u" by simp
  then have q: "(2 ^ n :: real) / u = of_int (2 ^ 23)" using u_pos by simp
  have y: "of_int (round_half_even (2 ^ n / ulp32 (2 ^ n))) * ulp32 (2 ^ n) = (2 ^ n :: real)"
    unfolding u_def [symmetric] q round_half_even_of_int using p by simp
  have "(2 :: real) ^ 128 \<le> 2 ^ n" using assms by (intro power_increasing) simp_all
  then show ?thesis unfolding fl32_def Let_def y by simp
qed

lemma fl32_dyadic:
  assumes "\<bar>m\<bar> < 2 ^ 24" and "- 149 \<le> k" and "\<bar>of_int m * 2 powi k :: real\<bar> < 2 ^ 128"
  shows "fl32 (of_int m * 2 powi k) = Fin (of_int m * 2 powi k)"
  using fl32_exact [OF refl assms] .

lemma fl32_0 [simp]: "fl32 0 = Fin 0"
  by (simp add: fl32_def)

lemma fl32_2: "fl32 2 = Fin 2"
  using fl32_dyadic [of 1 1] by simp

lemma fl32_vals:
  "fl32 (- (3 / 4)) = Fin (- (3 / 4))" "fl32 (- (1 / 2)) = Fin (- (1 / 2))"
  "fl32 (- (5 / 4)) = Fin (- (5 / 4))" "fl32 (- (5 / 8)) = Fin (- (5 / 8))"
  "fl32 (- (1 / 8)) = Fin (- (1 / 8))" "fl32 (1 / 8) = Fin (1 / 8)"
  "fl32 (1 / 64) = Fin (1 / 64)" "fl32 (1 / 32) = Fin (1 / 32)"
  "fl32 (- 1) = Fin (- 1)" "fl32 1 = Fin 1"
  using fl32_dyadic [of "- 3" "- 2"] fl32_dyadic [of "- 1" "- 1"] fl32_dyadic [of "- 5" "- 2"]
    fl32_dyadic [of "- 5" "- 3"] fl32_dyadic [of "- 1" "- 3"] fl32_dyadic [of 1 "- 3"]
    fl32_dyadic [of 1 "- 6"] fl32_dyadic [of 1 "- 5"] fl32_dyadic [of "- 1" 0]
    fl32_dyadic [of 1 0]
  by simp_all

lemma sqrt_64th: "sqrt (1 / 64) = 1 / 8"
  by (rule real_sqrt_unique) (simp_all add: power2_eq_square)

lemma sum32_zeros: "foldl fadd32 (Fin 0) (replicate n (Fin 0)) = Fin 0"
  by (induction n) simp_all

lemma fl32_not_NaN: "fl32 x \<noteq> NaN"
  by (simp add: fl32_def Let_def)

lemma fdiv32_zero_finite_or_nan: "fdiv32 (Fin 0) (fl32 c) = Fin 0 \<or> fdiv32 (Fin 0) (fl32 c) = NaN"
  by (cases "fl32 c") (simp_all add: fl32_not_NaN)

section \<open>A rollout without reward under a constant value prediction\<close>

lemma spec_advantage_zero:
  assumes "length dn = T" "length rw = T" "length Vs = T + 1"
    and "\<forall>x \<in> set rw. x = 0" "\<forall>d \<in> set dn. d = 0" "\<forall>v \<in> set Vs. v = V"
    and "g = 1 \<or> V = 0"
  shows "spec_advantage g l dn rw Vs T t = 0"
proof (induction "T - t" arbitrary: t)
  case 0
  then show ?case by (subst spec_advantage.simps) simp
next
  case (Suc k)
  then have t: "t < T" and k: "k = T - (t + 1)" by auto
  have "dn ! t = 0" "rw ! t = 0" "Vs ! t = V" "Vs ! (t + 1) = V"
    using assms(1-6) t by auto
  moreover have "spec_advantage g l dn rw Vs T (t + 1) = 0"
    using Suc.hyps(1) [OF k] .
  ultimately show ?case
    using t assms(7) by (subst spec_advantage.simps) auto
qed

text \<open>When all advantages are 0 the standard deviation is 0 or not a number, and the
  division stores a not-a-number for every step.\<close>

lemma standardize_zeros: "standardize (replicate n 0) = replicate n NaN"
proof (cases n)
  case 0
  then show ?thesis by (simp add: standardize_def)
next
  case (Suc k)
  let ?c = "fl32 (real n)"
  let ?a = "replicate n (Fin 0)"
  have ne: "replicate n (0::real) \<noteq> []" using Suc by simp
  have a: "map fl32 (replicate n 0) = ?a" by simp
  have m: "mean32 ?a = Fin 0 \<or> mean32 ?a = NaN"
    using fdiv32_zero_finite_or_nan [of "real n"] by (simp add: mean32_def sum32_def sum32_zeros)
  have q: "fdiv32 (fsub32 (Fin 0) (mean32 ?a)) (std32 ?a) = NaN"
  proof (cases "mean32 ?a = NaN")
    case True
    then show ?thesis by simp
  next
    case False
    then have m0: "mean32 ?a = Fin 0" using m by blast
    have "std32 ?a = fsqrt32 (fdiv32 (Fin 0) ?c)"
      by (simp add: std32_def m0 sum32_def sum32_zeros Let_def)
    then have "std32 ?a = Fin 0 \<or> std32 ?a = NaN"
      using fdiv32_zero_finite_or_nan [of "real n"] by auto
    then show ?thesis by (auto simp: m0)
  qed
  show ?thesis
    using ne by (simp add: standardize_def a Let_def q map_replicate_const)
qed

lemma gae_zero_example:
  "gae_advantages cfg0 id critic_ones rollout_zero = Inr [- (3 / 4), - (1 / 2)]"
  by (simp add: gae_advantages_def cfg0_def rollout_zero_def critic_ones_def Let_def upt_rec)

lemma standardize_example: "standardize [- (3 / 4), - (1 / 2)] = [Fin (- 1), Fin 1]"
proof -
  have m: "mean32 [Fin (- (3 / 4)), Fin (- (1 / 2))] = Fin (- (5 / 8))"
    by (simp add: mean32_def sum32_def fl32_vals fl32_2)
  have s: "std32 [Fin (- (3 / 4)), Fin (- (1 / 2))] = Fin (1 / 8)"
    by (simp add: std32_def m sum32_def fl32_vals fl32_2 sqrt_64th)
  show ?thesis
    by (simp add: standardize_def fl32_vals m s)
qed

text \<open>
  C2, as the specification states it, fails: with discount factor 1/2, \<open>\<lambda> = 1\<close>, two
  steps without reward or termination and the constant value prediction 1, the stored
  advantages are -1 and 1 and the stored returns are 1/4 and 1/2.
\<close>

theorem compute_gae_zero_reward_counterexample:
  "compute_gae cfg0 id critic_ones rollout_zero =
     Inr (rollout_zero\<lparr>adv := [Fin (- 1), Fin 1], ret := [1 / 4, 1 / 2]\<rparr>)"
proof -
  have "map2 (+) [- (3 / 4), - (1 / 2)] (butlast (critic_ones (id (ob rollout_zero))))
          = [1 / 4, 1 / 2 :: real]"
    by (simp add: critic_ones_def)
  then show ?thesis
    unfolding compute_gae_def gae_zero_example
    by (simp add: standardize_example)
qed

text \<open>
  C2, amended. For a rollout in which all rewards are 0, all done flags are 0 and every
  value prediction equals \<open>V\<close>, if the discount factor is 1 or \<open>V\<close> is 0 then the
  advantages before normalization are all 0 and the stored returns all equal \<open>V\<close>.
\<close>

theorem compute_gae_zero_reward_constant_value:
  assumes "length (rew r) = length (dones r)"
    and "length (vf (nrm (ob r))) = length (dones r) + 1"
    and "\<forall>x \<in> set (rew r). x = 0" and "\<forall>d \<in> set (dones r). d = 0"
    and "\<forall>v \<in> set (vf (nrm (ob r))). v = V"
    and "rl_discount_factor cfg = 1 \<or> V = 0"
  shows "gae_advantages cfg nrm vf r = Inr (replicate (length (dones r)) 0)
       \<and> (\<exists>r'. compute_gae cfg nrm vf r = Inr r' \<and> ret r' = replicate (length (dones r)) V)"
proof -
  let ?T = "length (dones r)"
  let ?Vs = "vf (nrm (ob r))"
  have "gae_advantages cfg nrm vf r =
          Inr (map (spec_advantage (rl_discount_factor cfg) (gae_lambda cfg) (dones r) (rew r)
                      ?Vs ?T) [0..<?T])"
    using assms(1,2) by (rule gae_advantages_spec)
  also have "map (spec_advantage (rl_discount_factor cfg) (gae_lambda cfg) (dones r) (rew r)
                      ?Vs ?T) [0..<?T] = replicate ?T 0"
    using spec_advantage_zero [OF refl assms(1,2,3,4,5,6)]
    by (intro nth_equalityI) simp_all
  finally have advs: "gae_advantages cfg nrm vf r = Inr (replicate ?T 0)" .
  have "map2 (+) (replicate ?T 0) (butlast ?Vs) = replicate ?T V"
    using assms(2,5) by (intro nth_equalityI) (simp_all add: nth_butlast)
  then show ?thesis
    using advs by (simp add: compute_gae_def Let_def)
qed

theorem compute_gae_zero_reward_constant_value_witness:
  "length (rew rollout_zero) = length (dones rollout_zero)
   \<and> length (critic_twos (id (ob rollout_zero))) = length (dones rollout_zero) + 1
   \<and> list_all (\<lambda>x. x = 0) (rew rollout_zero) \<and> list_all (\<lambda>d. d = 0) (dones rollout_zero)
   \<and> list_all (\<lambda>v. v = 2) (critic_twos (id (ob rollout_zero)))
   \<and> rl_discount_factor cfg1 = 1
   \<and> gae_advantages cfg1 id critic_twos rollout_zero = Inr [0, 0]
   \<and> (\<exists>r'. compute_gae cfg1 id critic_twos rollout_zero = Inr r' \<and> ret r' = [2, 2])"
proof -
  have h1: "length (rew rollout_zero) = length (dones rollout_zero)"
    by (simp add: rollout_zero_def)
  have h2: "length (critic_twos (id (ob rollout_zero))) = length (dones rollout_zero) + 1"
    by (simp add: rollout_zero_def critic_twos_def)
  have h3: "\<forall>x \<in> set (rew rollout_zero). x = 0" by (simp add: rollout_zero_def)
  have h4: "\<forall>d \<in> set (dones rollout_zero). d = 0" by (simp add: rollout_zero_def)
  have h5: "\<forall>v \<in> set (critic_twos (id (ob rollout_zero))). v = 2"
    by (simp add: critic_twos_def)
  have h6: "rl_discount_factor cfg1 = 1" by (simp add: cfg1_def)
  have len: "length (dones rollout_zero) = 2" by (simp add: rollout_zero_def)
  have r2: "replicate 2 x = [x, x]" for x :: real by (simp add: numeral_2_eq_2)
  have h7: "rl_discount_factor cfg1 = 1 \<or> (2::real) = 0" using h6 by simp
  from compute_gae_zero_reward_constant_value [where r = rollout_zero and vf = critic_twos
      and nrm = id and V = 2 and cfg = cfg1, OF h1 h2 h3 h4 h5 h7]
  have "gae_advantages cfg1 id critic_twos rollout_zero = Inr [0, 0]
      \<and> (\<exists>r'. compute_gae cfg1 id critic_twos rollout_zero = Inr r' \<and> ret r' = [2, 2])"
    unfolding len r2 .
  with h1 h2 h3 h4 h5 h6 show ?thesis by (simp add: list_all_iff)
qed

section \<open>The normalization at the ends of the range of 32-bit floats\<close>

lemma fl32_tiny:
  "fl32 (1 / 2 ^ 100) = Fin (1 / 2 ^ 100)" "fl32 (1 / 2 ^ 101) = Fin (1 / 2 ^ 101)"
  "fl32 (- (1 / 2 ^ 101)) = Fin (- (1 / 2 ^ 101))" "fl32 (1 / 2 ^ 202) = Fin 0"
proof -
  show "fl32 (1 / 2 ^ 100) = Fin (1 / 2 ^ 100)" "fl32 (1 / 2 ^ 101) = Fin (1 / 2 ^ 101)"
    "fl32 (- (1 / 2 ^ 101)) = Fin (- (1 / 2 ^ 101))"
    using fl32_dyadic [of 1 "- 100"] fl32_dyadic [of 1 "- 101"] fl32_dyadic [of "- 1" "- 101"]
    by simp_all
  show "fl32 (1 / 2 ^ 202) = Fin 0"
    by (rule fl32_underflow) simp_all
qed

lemma standardize_tiny: "standardize [1 / 2 ^ 100, 0] = [PInf, NInf]"
proof -
  have m: "mean32 [Fin (1 / 2 ^ 100), Fin 0] = Fin (1 / 2 ^ 101)"
    using fl32_tiny by (simp add: mean32_def sum32_def fl32_2)
  have s: "std32 [Fin (1 / 2 ^ 100), Fin 0] = Fin 0"
    using fl32_tiny m by (simp add: std32_def Let_def sum32_def fl32_2)
  show ?thesis
    using fl32_tiny m s by (simp add: standardize_def)
qed

lemma fl32_huge:
  "fl32 (2 ^ 65) = Fin (2 ^ 65)" "fl32 (2 ^ 64) = Fin (2 ^ 64)"
  "fl32 (- (2 ^ 64)) = Fin (- (2 ^ 64))" "fl32 (2 ^ 128) = PInf"
proof -
  show "fl32 (2 ^ 65) = Fin (2 ^ 65)" "fl32 (2 ^ 64) = Fin (2 ^ 64)"
    "fl32 (- (2 ^ 64)) = Fin (- (2 ^ 64))"
    using fl32_dyadic [of 1 65] fl32_dyadic [of 1 64] fl32_dyadic [of "- 1" 64]
    by simp_all
  show "fl32 (2 ^ 128) = PInf"
    by (rule fl32_pow2_overflow) simp
qed

lemma standardize_huge: "standardize [2 ^ 65, 0] = [Fin 0, Fin 0]"
proof -
  have m: "mean32 [Fin (2 ^ 65), Fin 0] = Fin (2 ^ 64)"
    using fl32_huge by (simp add: mean32_def sum32_def fl32_2)
  have s: "std32 [Fin (2 ^ 65), Fin 0] = PInf"
    using fl32_huge m by (simp add: std32_def Let_def sum32_def fl32_2)
  show ?thesis
    using fl32_huge m s by (simp add: standardize_def)
qed

lemma gae_tiny_example:
  "gae_advantages cfg0 id critic_zeros rollout_tiny = Inr [1 / 2 ^ 100, 0]"
  by (simp add: gae_advantages_def cfg0_def rollout_tiny_def critic_zeros_def Let_def upt_rec)

lemma gae_huge_example:
  "gae_advantages cfg0 id critic_zeros rollout_huge = Inr [2 ^ 65, 0]"
  by (simp add: gae_advantages_def cfg0_def rollout_huge_def critic_zeros_def Let_def upt_rec)

text \<open>
  C5. The claim asks that, when the advantages before normalization are finite and not
  all equal, the stored advantages have mean 0 and standard deviation 1. The program
  does not achieve it on two rollouts of two steps under the value prediction 0. With
  the rewards \<open>2 powi (- 100)\<close> and 0 the advantages before normalization are the same
  two numbers; the squares of their differences from the mean are below the smallest
  32-bit float, the standard deviation is 0, and the stored advantages are plus and
  minus infinity. With the rewards \<open>2 ^ 65\<close> and 0 the squares exceed the largest
  32-bit float, the standard deviation is infinite, and the stored advantages are both
  0. The returns are stored unnormalized in both.
\<close>

theorem compute_gae_normalization_degenerates:
  "gae_advantages cfg0 id critic_zeros rollout_tiny = Inr [1 / 2 ^ 100, 0]
   \<and> compute_gae cfg0 id critic_zeros rollout_tiny =
       Inr (rollout_tiny\<lparr>adv := [PInf, NInf], ret := [1 / 2 ^ 100, 0]\<rparr>)
   \<and> gae_advantages cfg0 id critic_zeros rollout_huge = Inr [2 ^ 65, 0]
   \<and> compute_gae cfg0 id critic_zeros rollout_huge =
       Inr (rollout_huge\<lparr>adv := [Fin 0, Fin 0], ret := [2 ^ 65, 0]\<rparr>)"
proof -
  have t: "compute_gae cfg0 id critic_zeros rollout_tiny =
       Inr (rollout_tiny\<lparr>adv := [PInf, NInf], ret := [1 / 2 ^ 100, 0]\<rparr>)"
    unfolding compute_gae_def gae_tiny_example
    using standardize_tiny by (simp add: critic_zeros_def)
  have h: "compute_gae cfg0 id critic_zeros rollout_huge =
       Inr (rollout_huge\<lparr>adv := [Fin 0, Fin 0], ret := [2 ^ 65, 0]\<rparr>)"
    unfolding compute_gae_def gae_huge_example
    using standardize_huge by (simp add: critic_zeros_def)
  show ?thesis using t h gae_tiny_example gae_huge_example by blast
qed

section \<open>The imitation reward as a function of the logit\<close>

lemma eps_pos: "0 < eps" by (simp add: eps_def)

lemma sigmoid_bounds: "0 < sigmoid x" "sigmoid x < 1"
proof -
  have "0 < exp (- x)" by simp
  then show "0 < sigmoid x" "sigmoid x < 1"
    by (simp_all add: sigmoid_def add_pos_pos)
qed

lemma sigmoid_at_top: "(sigmoid \<longlongrightarrow> 1) at_top"
proof -
  have "((\<lambda>x::real. exp (- x)) \<longlongrightarrow> 0) at_top"
    by (rule filterlim_compose [OF exp_at_bot filterlim_uminus_at_bot_at_top])
  then have "((\<lambda>x::real. 1 / (1 + exp (- x))) \<longlongrightarrow> 1 / (1 + 0)) at_top"
    by (intro tendsto_intros) simp_all
  then show ?thesis by (simp add: sigmoid_def [abs_def])
qed

lemma sigmoid_at_bot: "(sigmoid \<longlongrightarrow> 0) at_bot"
proof -
  have "LIM x at_bot. exp (- x :: real) :> at_top"
    by (rule filterlim_compose [OF exp_at_top filterlim_uminus_at_top_at_bot])
  then have "LIM x at_bot. 1 + exp (- x :: real) :> at_top"
    by (rule filterlim_tendsto_add_at_top [OF tendsto_const])
  then have "((\<lambda>x::real. inverse (1 + exp (- x))) \<longlongrightarrow> 0) at_bot"
    by (rule tendsto_inverse_0_at_top)
  then show ?thesis by (simp add: sigmoid_def [abs_def] inverse_eq_divide)
qed

lemma vanilla_reward_at_top: "(vanilla_reward \<longlongrightarrow> - ln eps) at_top"
proof -
  have "((\<lambda>x. 1 - sigmoid x + eps) \<longlongrightarrow> 1 - 1 + eps) at_top"
    by (intro tendsto_intros sigmoid_at_top)
  then have "((\<lambda>x. ln (1 - sigmoid x + eps)) \<longlongrightarrow> ln (1 - 1 + eps)) at_top"
    by (rule tendsto_ln) (simp add: eps_def)
  then have "((\<lambda>x. - ln (1 - sigmoid x + eps)) \<longlongrightarrow> - ln (1 - 1 + eps)) at_top"
    by (rule tendsto_minus)
  then show ?thesis by (simp add: vanilla_reward_def [abs_def] Let_def)
qed

lemma vanilla_reward_at_bot: "(vanilla_reward \<longlongrightarrow> - ln (1 + eps)) at_bot"
proof -
  have "((\<lambda>x. 1 - sigmoid x + eps) \<longlongrightarrow> 1 - 0 + eps) at_bot"
    by (intro tendsto_intros sigmoid_at_bot)
  then have "((\<lambda>x. ln (1 - sigmoid x + eps)) \<longlongrightarrow> ln (1 - 0 + eps)) at_bot"
    by (rule tendsto_ln) (simp add: eps_def)
  then have "((\<lambda>x. - ln (1 - sigmoid x + eps)) \<longlongrightarrow> - ln (1 - 0 + eps)) at_bot"
    by (rule tendsto_minus)
  then show ?thesis by (simp add: vanilla_reward_def [abs_def] Let_def)
qed

lemma vanilla_reward_bounds:
  "- ln (1 + eps) < vanilla_reward x" "vanilla_reward x < - ln eps"
proof -
  have a: "eps < 1 - sigmoid x + eps" "1 - sigmoid x + eps < 1 + eps"
    using sigmoid_bounds [of x] by simp_all
  have "ln eps < ln (1 - sigmoid x + eps)"
    using a(1) eps_pos by (subst ln_less_cancel_iff) simp_all
  moreover have "ln (1 - sigmoid x + eps) < ln (1 + eps)"
    using a eps_pos by (subst ln_less_cancel_iff) simp_all
  ultimately show "- ln (1 + eps) < vanilla_reward x" "vanilla_reward x < - ln eps"
    by (simp_all add: vanilla_reward_def Let_def)
qed

lemma ln_eps_neg: "ln eps < 0"
  by (rule ln_less_zero) (simp_all add: eps_def)

text \<open>
  C3, as the specification states it, fails: the vanilla reward of a logit does not tend
  to 0 from below as the logit grows, and it does not tend to minus infinity as the
  logit falls.
\<close>

theorem vanilla_reward_limits_counterexample:
  "\<not> filterlim vanilla_reward (at_left 0) at_top \<and> \<not> filterlim vanilla_reward at_bot at_bot"
proof
  show "\<not> filterlim vanilla_reward (at_left 0) at_top"
  proof
    assume "filterlim vanilla_reward (at_left 0) at_top"
    then have "(vanilla_reward \<longlongrightarrow> 0) at_top"
      by (simp add: filterlim_at)
    then have "- ln eps = 0"
      using vanilla_reward_at_top by (intro tendsto_unique) simp_all
    then show False using ln_eps_neg by simp
  qed
  show "\<not> filterlim vanilla_reward at_bot at_bot"
  proof
    assume "filterlim vanilla_reward at_bot at_bot"
    then have "eventually (\<lambda>x. vanilla_reward x \<le> - ln (1 + eps)) at_bot"
      by (simp add: filterlim_at_bot)
    then obtain x where "vanilla_reward x \<le> - ln (1 + eps)"
      using eventually_happens [of _ at_bot] trivial_limit_at_bot_linorder by blast
    then show False using vanilla_reward_bounds(1) [of x] by simp
  qed
qed

text \<open>
  C3, amended. With the vanilla reward, as the logit tends to plus infinity (the
  discriminator is sure of "expert") the reward tends to \<open>- ln \<epsilon>\<close>, a positive number
  which only the term \<open>\<epsilon>\<close> keeps finite, and as the logit tends to minus infinity the
  reward tends to \<open>- ln (1 + \<epsilon>)\<close>, just below 0; every reward lies strictly between
  the two. \<^verbatim>\<open>predict_reward\<close> returns \<open>vanilla_reward\<close> of the logit in this
  configuration, as the theorem of C4 shows.
\<close>

theorem vanilla_reward_limits:
  "(vanilla_reward \<longlongrightarrow> - ln eps) at_top
   \<and> (vanilla_reward \<longlongrightarrow> - ln (1 + eps)) at_bot
   \<and> 0 < - ln eps \<and> - ln (1 + eps) < 0
   \<and> (\<forall>x. - ln (1 + eps) < vanilla_reward x \<and> vanilla_reward x < - ln eps)"
proof -
  have "0 < ln (1 + eps)" using eps_pos by (intro ln_gt_zero) simp
  then show ?thesis
    using vanilla_reward_at_top vanilla_reward_at_bot vanilla_reward_bounds ln_eps_neg
    by simp
qed

section \<open>The value of \<^verbatim>\<open>predict_reward\<close>\<close>

text \<open>
  C4. When the discriminator gives one logit \<open>x\<close> for the normalized observation and the
  action, \<^verbatim>\<open>predict_reward\<close> returns \<open>- ln (1 - s + \<epsilon>)\<close> under the vanilla
  configuration and \<open>ln (s + \<epsilon>) - ln (1 - s + \<epsilon>)\<close> otherwise, where \<open>s\<close> is the sigmoid
  of \<open>x\<close> and \<open>\<epsilon>\<close> is \<open>1e-20\<close>; when the agent is configured for state-only
  discrimination the result does not depend on the action.
\<close>

theorem predict_reward_formula:
  assumes "D (nrm ob0) (if gail_no_action cfg then None else ac0) = [x]"
  shows "predict_reward cfg nrm D ob0 ac0 =
           Inr (if gail_vanilla_reward cfg then - ln (1 - sigmoid x + 1 / 10 ^ 20)
                else ln (sigmoid x + 1 / 10 ^ 20) - ln (1 - sigmoid x + 1 / 10 ^ 20))
       \<and> (gail_no_action cfg \<longrightarrow>
            predict_reward cfg nrm D ob0 ac0 = predict_reward cfg nrm D ob0 ac1)"
  using assms
  by (simp add: predict_reward_def item_def vanilla_reward_def symmetric_reward_def eps_def
      Let_def)

theorem predict_reward_formula_witness:
  "disc0 (id ()) (if gail_no_action cfg_no_action then None else Some 1) = [0]
   \<and> predict_reward cfg_no_action id disc0 () (Some 1) = Inr (- ln (1 / 2 + 1 / 10 ^ 20))
   \<and> gail_no_action cfg_no_action
   \<and> predict_reward cfg_no_action id disc0 () (Some 1)
       = predict_reward cfg_no_action id disc0 () None"
proof -
  have h: "disc0 (id ()) (if gail_no_action cfg_no_action then None else Some 1) = [0]"
    by (simp add: disc0_def cfg_no_action_def cfg0_def)
  have s: "sigmoid 0 = 1 / 2" by (simp add: sigmoid_def)
  have v: "gail_vanilla_reward cfg_no_action" "gail_no_action cfg_no_action"
    by (simp_all add: cfg_no_action_def cfg0_def)
  have e: "- ln (1 - sigmoid 0 + 1 / 10 ^ 20) = - ln (1 / 2 + 1 / 10 ^ 20)"
    by (simp add: s)
  note t = predict_reward_formula [where D = disc0 and nrm = id and ?ob0.0 = "()"
      and cfg = cfg_no_action and ?ac0.0 = "Some 1" and x = 0 and ?ac1.0 = None, OF h]
  have c1: "predict_reward cfg_no_action id disc0 () (Some 1)
              = Inr (- ln (1 - sigmoid 0 + 1 / 10 ^ 20))"
    using t v(1) by simp
  have c2: "predict_reward cfg_no_action id disc0 () (Some 1)
              = predict_reward cfg_no_action id disc0 () None"
    using t v(2) by blast
  show ?thesis using h v(2) c1 [unfolded e] c2 by blast
qed

lemma item_map:
  "item (map f t) = (if length t = 1 then Inr (f (hd t)) else Inl ValueError)"
  by (cases t; cases "tl t") (auto simp: item_def)

text \<open>
  C10. \<^verbatim>\<open>predict_reward\<close> returns a number exactly when the discriminator's output
  has one element; on an output of any other size, such as that of a batch of several
  transitions, it raises the error of \<^verbatim>\<open>item()\<close> and returns no vector.
\<close>

theorem predict_reward_needs_one_element:
  "((\<exists>r. predict_reward cfg nrm D ob0 ac0 = Inr r) \<longleftrightarrow>
      length (D (nrm ob0) (if gail_no_action cfg then None else ac0)) = 1)
   \<and> (length (D (nrm ob0) (if gail_no_action cfg then None else ac0)) \<noteq> 1 \<longrightarrow>
        predict_reward cfg nrm D ob0 ac0 = Inl ValueError)"
  by (simp add: predict_reward_def Let_def item_map)

theorem predict_reward_needs_one_element_witness:
  "length (disc0 (id ()) (if gail_no_action cfg0 then None else Some 1)) \<noteq> 1
   \<and> predict_reward cfg0 id disc0 () (Some 1) = Inl ValueError
   \<and> length (disc0 (id ()) (if gail_no_action cfg0 then None else None)) = 1
   \<and> (\<exists>r. predict_reward cfg0 id disc0 () None = Inr r)"
proof -
  have h: "length (disc0 (id ()) (if gail_no_action cfg0 then None else Some 1)) \<noteq> 1"
    by (simp add: disc0_def cfg0_def)
  have k: "length (disc0 (id ()) (if gail_no_action cfg0 then None else None)) = 1"
    by (simp add: disc0_def)
  from predict_reward_needs_one_element [where D = disc0 and nrm = id and ?ob0.0 = "()"
      and cfg = cfg0 and ?ac0.0 = "Some 1"] h
  have a: "predict_reward cfg0 id disc0 () (Some 1) = Inl ValueError" by blast
  from predict_reward_needs_one_element [where D = disc0 and nrm = id and ?ob0.0 = "()"
      and cfg = cfg0 and ?ac0.0 = None] k
  have b: "\<exists>r. predict_reward cfg0 id disc0 () None = Inr r" by blast
  show ?thesis using h k a b by blast
qed

section \<open>Modes and entropies of the distributions\<close>

lemma clamp_id: "lo \<le> x \<Longrightarrow> x \<le> hi \<Longrightarrow> clamp lo hi x = x"
  by (simp add: clamp_def)

lemma broadcast_all_map:
  assumes "broadcast_all a b = Inr (a', b')"
  shows "broadcast_all (map f a) b = Inr (map f a', b')"
proof -
  have "hd (map f a) = f (hd a)" if "length a = 1"
    using that by (cases a) simp_all
  then show ?thesis
    using assms by (auto simp: broadcast_all_def split: if_splits)
qed

lemma broadcast_all_positive:
  assumes "broadcast_all a b = Inr (a', b')" and "\<forall>s \<in> set b. 0 < s"
  shows "list_all (\<lambda>x. 0 < x) b'"
proof -
  have "0 < hd b" if "length b = 1"
    using that assms(2) by (cases b) simp_all
  then show ?thesis
    using assms by (auto simp: broadcast_all_def list_all_iff split: if_splits)
qed

text \<open>
  C7. For a mean and a positive standard deviation whose shapes broadcast, the mode of
  \<^verbatim>\<open>TanhNormal\<close> is the hyperbolic tangent of the mean clamped to the interval from
  -9 to 9, and so the hyperbolic tangent of the mean when the mean lies in that
  interval. The mean meant is the mean in the common shape, which is the mean itself
  when the standard deviation has its shape.
\<close>

theorem TanhNormal_mode_clamped:
  assumes "broadcast_all mean0 std0 = Inr (mean1, std1)"
    and "\<forall>s \<in> set std0. 0 < s" and "event_dim \<le> 1"
  shows "\<exists>d. TanhNormal_init mean0 std0 event_dim = Inr d
           \<and> TanhNormal_mode d = map (\<lambda>m. tanh (clamp (- 9) 9 m)) mean1
           \<and> ((\<forall>m \<in> set mean0. - 9 \<le> m \<and> m \<le> 9) \<longrightarrow> TanhNormal_mode d = map tanh mean1)
           \<and> (length std0 = length mean0 \<longrightarrow> mean1 = mean0)"
proof -
  let ?l = "map (clamp (- 9) 9) mean1"
  have "broadcast_all (map (clamp (- 9) 9) mean0) std0 = Inr (?l, std1)"
    using assms(1) by (rule broadcast_all_map)
  moreover have "list_all (\<lambda>x. 0 < x) std1"
    using assms(1,2) by (rule broadcast_all_positive)
  ultimately have n: "torch_Normal (map (clamp (- 9) 9) mean0) std0 = Inr (Normal ?l std1)"
    by (simp add: torch_Normal_def)
  have i: "TanhNormal_init mean0 std0 event_dim =
             Inr (TanhNormal (TanhNormal_inner (Normal ?l std1)) event_dim)"
    using assms(3) by (simp add: TanhNormal_init_def TanhNormal_inner_init_def n)
  have m: "TanhNormal_mode (TanhNormal (TanhNormal_inner (Normal ?l std1)) event_dim)
             = map (\<lambda>m. tanh (clamp (- 9) 9 m)) mean1"
    by (simp add: TanhNormal_mode_def TanhNormal_mean_def TanhNormal_inner_mean_def
        Normal_mean_def)
  have "hd mean0 \<in> set mean0" if "length mean0 = 1"
    using that by (cases mean0) simp_all
  then have sub: "set mean1 \<subseteq> set mean0"
    using assms(1) by (auto simp: broadcast_all_def split: if_splits)
  have "map (\<lambda>m. tanh (clamp (- 9) 9 m)) mean1 = map tanh mean1"
    if "\<forall>m \<in> set mean0. - 9 \<le> m \<and> m \<le> 9"
    using that sub by (intro map_cong) (auto simp: clamp_id)
  moreover have "mean1 = mean0" if "length std0 = length mean0"
    using that assms(1) by (simp add: broadcast_all_def)
  ultimately show ?thesis using i m by simp
qed

theorem TanhNormal_mode_clamped_witness:
  "broadcast_all [0, 10] [1] = Inr ([0, 10], [1, 1]) \<and> list_all (\<lambda>s. 0 < s) [1 :: real]
   \<and> (1::nat) \<le> 1
   \<and> (\<exists>d. TanhNormal_init [0, 10] [1] 1 = Inr d \<and> TanhNormal_mode d = [0, tanh 9])
   \<and> broadcast_all [0, 9] [1, 2] = Inr ([0, 9], [1, 2])
   \<and> list_all (\<lambda>s. 0 < s) [1, 2 :: real]
   \<and> list_all (\<lambda>m. - 9 \<le> m \<and> m \<le> 9) [0, 9 :: real]
   \<and> length [1, 2 :: real] = length [0, 9 :: real]
   \<and> (\<exists>d. TanhNormal_init [0, 9] [1, 2] 1 = Inr d \<and> TanhNormal_mode d = map tanh [0, 9])"
proof -
  have h1: "broadcast_all [0, 10] [1] = Inr ([0, 10], [1, 1])"
    by (simp add: broadcast_all_def numeral_2_eq_2)
  have h1': "broadcast_all [0, 9] [1, 2] = Inr ([0, 9], [1, 2])"
    by (simp add: broadcast_all_def)
  have h2: "\<forall>s \<in> set [1 :: real]. 0 < s" by simp
  have h2': "\<forall>s \<in> set [1, 2 :: real]. 0 < s" by simp
  have h3: "(1::nat) \<le> 1" by simp
  have h4: "\<forall>m \<in> set [0, 9 :: real]. - 9 \<le> m \<and> m \<le> 9" by simp
  have a: "\<exists>d. TanhNormal_init [0, 10] [1] 1 = Inr d \<and> TanhNormal_mode d = [0, tanh 9]"
    using TanhNormal_mode_clamped [OF h1 h2 h3] by (simp add: clamp_def)
  have b: "\<exists>d. TanhNormal_init [0, 9] [1, 2] 1 = Inr d \<and> TanhNormal_mode d = map tanh [0, 9]"
    using TanhNormal_mode_clamped [OF h1' h2' h3] h4 by blast
  show ?thesis using h1 h1' a b by simp
qed

text \<open>
  C8. The entropy of the repository's \<^verbatim>\<open>Categorical\<close> is 10 times the entropy of
  the base categorical distribution with the same logits, for each vector of the batch.
\<close>

theorem Categorical_entropy_scaled:
  "Categorical_entropy d = map (\<lambda>h. 10 * h) (torch_Categorical_entropy d)
   \<and> length (Categorical_entropy d) = length (logits d)"
  by (simp add: Categorical_entropy_def torch_Categorical_entropy_def mult.commute)

section \<open>Sums over the sub-distributions of a mixed distribution\<close>

lemma log_prob_items_ok:
  assumes "\<forall>(k, d) \<in> set ds. \<exists>v t. x k = Some v \<and> dist_log_prob d v = Inr t \<and> length t = n"
  shows "log_prob_items ds x = Inr (map (\<lambda>(k, d). projr (dist_log_prob d (the (x k)))) ds)"
  using assms by (induction ds) auto

lemma entropy_items_ok:
  assumes "\<forall>(k, d) \<in> set ds. \<exists>t. dist_entropy d = Inr t \<and> length t = n"
  shows "entropy_items ds = Inr (map (\<lambda>(k, d). projr (dist_entropy d)) ds)"
  using assms by (induction ds) auto

lemma stack_sum_ok:
  assumes "ts \<noteq> []" and "\<forall>t \<in> set ts. length t = n"
  shows "stack_sum ts = Inr (map (\<lambda>i. sum_list (map (\<lambda>u. u ! i) ts)) [0..<n])"
  using assms by (cases ts) (auto simp: stack_sum_def list_all_iff)

lemma tensor_add_same:
  "length a = length b \<Longrightarrow> tensor_add a b = Inr (map2 (+) a b)"
  by (simp add: tensor_add_def broadcast_all_def)

lemma tensor_add_zero: "tensor_add [0] t = Inr t"
proof (cases "length t = 1")
  case True
  then obtain y where "t = [y]" by (cases t) auto
  then show ?thesis by (simp add: tensor_add_def broadcast_all_def)
next
  case False
  have "map2 (+) (replicate (length t) 0) t = t"
    by (intro nth_equalityI) simp_all
  then show ?thesis using False by (simp add: tensor_add_def broadcast_all_def)
qed

lemma py_sum_same:
  assumes "length acc = n" and "\<forall>t \<in> set ts. length t = n"
  shows "py_sum acc ts = Inr (map (\<lambda>i. acc ! i + sum_list (map (\<lambda>u. u ! i) ts)) [0..<n])"
  using assms
proof (induction ts arbitrary: acc)
  case Nil
  then show ?case by (auto intro: nth_equalityI)
next
  case (Cons t ts)
  have l: "length (map2 (+) acc t) = n" using Cons.prems by simp
  have "py_sum (map2 (+) acc t) ts =
          Inr (map (\<lambda>i. map2 (+) acc t ! i + sum_list (map (\<lambda>u. u ! i) ts)) [0..<n])"
    using Cons.IH [OF l] Cons.prems(2) by simp
  also have "map (\<lambda>i. map2 (+) acc t ! i + sum_list (map (\<lambda>u. u ! i) ts)) [0..<n]
               = map (\<lambda>i. acc ! i + sum_list (map (\<lambda>u. u ! i) (t # ts))) [0..<n]"
    using Cons.prems by (intro map_cong) (simp_all add: add.assoc)
  finally show ?case
    using Cons.prems by (simp add: tensor_add_same)
qed

lemma py_sum_from_zero:
  assumes "ts \<noteq> []" and "\<forall>t \<in> set ts. length t = n"
  shows "py_sum [0] ts = Inr (map (\<lambda>i. sum_list (map (\<lambda>u. u ! i) ts)) [0..<n])"
proof -
  obtain t rest where ts: "ts = t # rest" using assms(1) by (cases ts) auto
  have "py_sum [0] ts = py_sum t rest" by (simp add: ts tensor_add_zero)
  also have "\<dots> = Inr (map (\<lambda>i. t ! i + sum_list (map (\<lambda>u. u ! i) rest)) [0..<n])"
    using assms(2) by (intro py_sum_same) (simp_all add: ts)
  finally show ?thesis by (simp add: ts)
qed

lemma sum_list_nth_items:
  "sum_list (map ((\<lambda>u. u ! i) \<circ> (\<lambda>(k, d). f k d)) ds) = (\<Sum>(k, d)\<leftarrow>ds. f k d ! i)"
  by (induction ds) auto

text \<open>
  C9. For a mixed distribution with at least one sub-distribution and a dictionary that
  has a value for each key, when the log-probabilities of the sub-distributions have one
  shape, \<^verbatim>\<open>log_prob\<close> is the sum over the keys of the log-probability that the key's
  sub-distribution gives to the key's value; when their entropies have one shape,
  \<^verbatim>\<open>entropy\<close> is the sum over the keys of their entropies.
\<close>

theorem MixedDistribution_sums:
  assumes "ds \<noteq> []"
    and "\<forall>(k, d) \<in> set ds. \<exists>v t. x k = Some v \<and> dist_log_prob d v = Inr t \<and> length t = n"
    and "\<forall>(k, d) \<in> set ds. \<exists>t. dist_entropy d = Inr t \<and> length t = m"
  shows "MixedDistribution_log_prob ds x =
           Inr (map (\<lambda>i. \<Sum>(k, d)\<leftarrow>ds. projr (dist_log_prob d (the (x k))) ! i) [0..<n])
       \<and> MixedDistribution_entropy ds =
           Inr (map (\<lambda>i. \<Sum>(k, d)\<leftarrow>ds. projr (dist_entropy d) ! i) [0..<m])"
proof
  let ?ts = "map (\<lambda>(k, d). projr (dist_log_prob d (the (x k)))) ds"
  have "\<forall>t \<in> set ?ts. length t = n" using assms(2) by fastforce
  moreover have "?ts \<noteq> []" using assms(1) by simp
  ultimately have "stack_sum ?ts = Inr (map (\<lambda>i. sum_list (map (\<lambda>u. u ! i) ?ts)) [0..<n])"
    by (intro stack_sum_ok)
  then show "MixedDistribution_log_prob ds x =
           Inr (map (\<lambda>i. \<Sum>(k, d)\<leftarrow>ds. projr (dist_log_prob d (the (x k))) ! i) [0..<n])"
    unfolding MixedDistribution_log_prob_def log_prob_items_ok [OF assms(2)]
    by (simp add: sum_list_nth_items)
next
  let ?es = "map (\<lambda>(k, d). projr (dist_entropy d)) ds"
  have "\<forall>t \<in> set ?es. length t = m" using assms(3) by fastforce
  moreover have "?es \<noteq> []" using assms(1) by simp
  ultimately have "py_sum [0] ?es = Inr (map (\<lambda>i. sum_list (map (\<lambda>u. u ! i) ?es)) [0..<m])"
    by (intro py_sum_from_zero)
  then show "MixedDistribution_entropy ds =
           Inr (map (\<lambda>i. \<Sum>(k, d)\<leftarrow>ds. projr (dist_entropy d) ! i) [0..<m])"
    unfolding MixedDistribution_entropy_def entropy_items_ok [OF assms(3)]
    by (simp add: sum_list_nth_items)
qed

theorem MixedDistribution_sums_witness:
  "mixed0 \<noteq> []
   \<and> list_all (\<lambda>(k, d). \<exists>v t. values0 k = Some v \<and> dist_log_prob d v = Inr t \<and> length t = 2)
        mixed0
   \<and> list_all (\<lambda>(k, d). \<exists>t. dist_entropy d = Inr t \<and> length t = 2) mixed0
   \<and> MixedDistribution_log_prob mixed0 values0 = Inr [5, 2]
   \<and> MixedDistribution_entropy mixed0 = Inr [4, 6]"
proof -
  have h1: "mixed0 \<noteq> []" by (simp add: mixed0_def)
  have h2: "\<forall>(k, d) \<in> set mixed0.
              \<exists>v t. values0 k = Some v \<and> dist_log_prob d v = Inr t \<and> length t = 2"
    by (simp add: mixed0_def values0_def dist_a_def dist_b_def)
  have h3: "\<forall>(k, d) \<in> set mixed0. \<exists>t. dist_entropy d = Inr t \<and> length t = 2"
    by (simp add: mixed0_def dist_a_def dist_b_def)
  have u: "[0..<2] = [0, 1]" by (simp add: upt_rec numeral_2_eq_2)
  have e1: "map (\<lambda>i. \<Sum>(k, d)\<leftarrow>mixed0. projr (dist_log_prob d (the (values0 k))) ! i) [0..<2]
              = [5, 2]"
    by (simp add: u mixed0_def values0_def dist_a_def dist_b_def)
  have e2: "map (\<lambda>i. \<Sum>(k, d)\<leftarrow>mixed0. projr (dist_entropy d) ! i) [0..<2] = [4, 6]"
    by (simp add: u mixed0_def dist_a_def dist_b_def)
  note t = MixedDistribution_sums [OF h1 h2 h3, unfolded e1 e2]
  have a: "MixedDistribution_log_prob mixed0 values0 = Inr [5, 2]"
    using t by blast
  have b: "MixedDistribution_entropy mixed0 = Inr [4, 6]"
    using t by blast
  show ?thesis using h1 h2 h3 a b by (simp add: list_all_iff)
qed

section \<open>The old actor during a training round\<close>

lemma update_policy_frame:
  assumes "update_policy E cfg s tr = Inr s'"
  shows "old_actor s' = old_actor s \<and> events s' = events s @ [PolicyUpdate]"
  using assms
  by (auto simp: update_policy_def Let_def set_trace_def split: if_splits prod.splits)

lemma update_discriminator_frame:
  assumes "update_discriminator E cfg s pd ed = Inr s'"
  shows "old_actor s' = old_actor s \<and> events s' = events s @ [DiscriminatorUpdate]"
  using assms
  by (auto simp: update_discriminator_def Let_def split: if_splits prod.splits sum.splits)

lemma next_expert_frame:
  assumes "next_expert E s = Inr (x, s')"
  shows "old_actor s' = old_actor s \<and> events s' = events s"
  using assms by (auto simp: next_expert_def split: list.splits)

lemma policy_loop_frame:
  assumes "policy_loop E cfg n s = Inr s'"
  shows "old_actor s' = old_actor s \<and> events s' = events s @ replicate n PolicyUpdate"
  using assms
proof (induction n arbitrary: s)
  case 0
  then show ?case by simp
next
  case (Suc n)
  from Suc.prems obtain pd b s1 where
    smp: "buffer_sample E (buffer s) (batch_size cfg) = Inr (pd, b)"
    and upd: "update_policy E cfg (s\<lparr>buffer := b\<rparr>) pd = Inr s1"
    and rest: "policy_loop E cfg n s1 = Inr s'"
    by (auto split: sum.splits)
  have "old_actor s1 = old_actor s" "events s1 = events s @ [PolicyUpdate]"
    using update_policy_frame [OF upd] by simp_all
  moreover have "old_actor s' = old_actor s1" "events s' = events s1 @ replicate n PolicyUpdate"
    using Suc.IH [OF rest] by simp_all
  ultimately show ?case by (simp add: replicate_app_Cons_same)
qed

lemma discriminator_loop_frame:
  assumes "discriminator_loop E cfg n s = Inr s'"
  shows "old_actor s' = old_actor s \<and> events s' = events s @ replicate n DiscriminatorUpdate"
  using assms
proof (induction n arbitrary: s)
  case 0
  then show ?case by simp
next
  case (Suc n)
  from Suc.prems obtain pd b ed s1 s2 where
    smp: "buffer_sample E (buffer s) (batch_size cfg) = Inr (pd, b)"
    and nxt: "next_expert E (s\<lparr>buffer := b\<rparr>) = Inr (ed, s1)"
    and upd: "update_discriminator E cfg s1 pd ed = Inr s2"
    and rest: "discriminator_loop E cfg n s2 = Inr s'"
    by (auto split: sum.splits)
  have "old_actor s1 = old_actor s" "events s1 = events s"
    using next_expert_frame [OF nxt] by simp_all
  moreover have "old_actor s2 = old_actor s1" "events s2 = events s1 @ [DiscriminatorUpdate]"
    using update_discriminator_frame [OF upd] by simp_all
  moreover have "old_actor s' = old_actor s2"
    "events s' = events s2 @ replicate n DiscriminatorUpdate"
    using Suc.IH [OF rest] by simp_all
  ultimately show ?case by (simp add: replicate_app_Cons_same)
qed

lemma update_policy_reads_old_log_pi:
  assumes "fst (actor_act E theta (normalize_ob E (ob tr)) (ac_before_activation tr))
             = fst (actor_act E (old_actor s) (normalize_ob E (ob tr)) (ac_before_activation tr))"
  shows "update_policy E cfg (s\<lparr>old_actor := theta\<rparr>) tr
           = map_sum id (\<lambda>s'. s'\<lparr>old_actor := theta\<rparr>) (update_policy E cfg s tr)"
  using assms
  by (simp add: update_policy_def Let_def set_trace_def split: prod.splits)

lemma update_policy_example:
  "update_policy E0 cfg_two agent0 batch0 =
     Inr (agent0\<lparr>actor := [1], critic := [1], actor_optim := 1, critic_optim := 1,
                 events := [PolicyUpdate]\<rparr>)"
  by (simp add: update_policy_def E0_def agent0_def batch0_def Let_def isfinite_def)

lemma train_example: "train E0 cfg_two agent0 = Inr agent1"
  by (simp add: train_def cfg_two_def cfg0_def E0_def agent0_def agent1_def batch0_def Let_def
      numeral_2_eq_2 update_policy_def update_discriminator_def next_expert_def
      copy_target_network_def isfinite_def)

text \<open>
  C6. In a round of \<^verbatim>\<open>train\<close> that returns, the old actor is synced once, before
  the first update of a batch: the events of the round are one sync, then the policy
  updates, then the discriminator updates, then the clearing of the buffer, and the old
  actor at the end is what this one call of \<^verbatim>\<open>_copy_target_network\<close> made of the
  old actor and the actor the round started with. An update of the policy on a
  batch leaves the parameters of the old actor as they were, and it depends on them
  through the log-probabilities of the old actor only: replacing them by parameters that
  give the same log-probabilities on the batch changes nothing else in the result.
\<close>

theorem train_old_actor_frozen:
  assumes "train E cfg s = Inr s'"
  shows "old_actor s' = copy_target_network (old_actor s) (actor s)
       \<and> events s' = events s @ [SyncOldActor]
            @ replicate (ppo_epoch cfg * rollout_length cfg div batch_size cfg) PolicyUpdate
            @ replicate (rollout_length cfg div batch_size cfg div discriminator_update_freq cfg)
                DiscriminatorUpdate
            @ [BufferClear]
       \<and> (\<forall>s1 tr s2. update_policy E cfg s1 tr = Inr s2 \<longrightarrow> old_actor s2 = old_actor s1)
       \<and> (\<forall>s1 tr theta.
             fst (actor_act E theta (normalize_ob E (ob tr)) (ac_before_activation tr))
               = fst (actor_act E (old_actor s1) (normalize_ob E (ob tr))
                       (ac_before_activation tr))
             \<longrightarrow> update_policy E cfg (s1\<lparr>old_actor := theta\<rparr>) tr
                   = map_sum id (\<lambda>s2. s2\<lparr>old_actor := theta\<rparr>) (update_policy E cfg s1 tr))"
proof -
  let ?s1 = "s\<lparr>actor_optim := lr_scheduler_step E (actor_optim s),
                 critic_optim := lr_scheduler_step E (critic_optim s),
                 discriminator_optim := lr_scheduler_step E (discriminator_optim s)\<rparr>"
  let ?s2 = "?s1\<lparr>old_actor := copy_target_network (old_actor ?s1) (actor ?s1),
                  events := events ?s1 @ [SyncOldActor]\<rparr>"
  let ?n1 = "ppo_epoch cfg * rollout_length cfg div batch_size cfg"
  let ?n2 = "rollout_length cfg div batch_size cfg div discriminator_update_freq cfg"
  from assms obtain s3 s4 where
    p: "policy_loop E cfg ?n1 ?s2 = Inr s3"
    and d: "discriminator_loop E cfg ?n2 s3 = Inr s4"
    and f: "s' = s4\<lparr>buffer := buffer_clear E (buffer s4), events := events s4 @ [BufferClear]\<rparr>"
    by (auto simp: train_def Let_def split: if_splits sum.splits)
  have a: "old_actor ?s2 = copy_target_network (old_actor s) (actor s)"
    "events ?s2 = events s @ [SyncOldActor]"
    by simp_all
  have b: "old_actor s3 = old_actor ?s2" "events s3 = events ?s2 @ replicate ?n1 PolicyUpdate"
    using policy_loop_frame [OF p] by blast+
  have c: "old_actor s4 = old_actor s3" "events s4 = events s3 @ replicate ?n2 DiscriminatorUpdate"
    using discriminator_loop_frame [OF d] by blast+
  have "old_actor s' = copy_target_network (old_actor s) (actor s)"
    using a(1) b(1) c(1) f by simp
  moreover have "events s' = events s @ [SyncOldActor] @ replicate ?n1 PolicyUpdate
            @ replicate ?n2 DiscriminatorUpdate @ [BufferClear]"
    using a(2) b(2) c(2) f by simp
  ultimately show ?thesis
    using update_policy_frame update_policy_reads_old_log_pi by blast
qed

theorem train_old_actor_frozen_witness:
  "train E0 cfg_two agent0 = Inr agent1
   \<and> old_actor agent1 = copy_target_network (old_actor agent0) (actor agent0)
   \<and> old_actor agent1 = actor agent0
   \<and> events agent1 = [SyncOldActor, PolicyUpdate, PolicyUpdate, DiscriminatorUpdate, BufferClear]
   \<and> update_policy E0 cfg_two agent0 batch0 =
       Inr (agent0\<lparr>actor := [1], critic := [1], actor_optim := 1, critic_optim := 1,
                    events := [PolicyUpdate]\<rparr>)
   \<and> old_actor (agent0\<lparr>actor := [1], critic := [1], actor_optim := 1, critic_optim := 1,
                         events := [PolicyUpdate]\<rparr>) = old_actor agent0
   \<and> fst (actor_act E0 [2, 3] (normalize_ob E0 (ob batch0)) (ac_before_activation batch0))
       = fst (actor_act E0 (old_actor agent0) (normalize_ob E0 (ob batch0))
               (ac_before_activation batch0))
   \<and> update_policy E0 cfg_two (agent0\<lparr>old_actor := [2, 3]\<rparr>) batch0
       = map_sum id (\<lambda>s2. s2\<lparr>old_actor := [2, 3]\<rparr>) (update_policy E0 cfg_two agent0 batch0)"
proof -
  note t = train_old_actor_frozen [OF train_example]
  have a: "old_actor agent1 = copy_target_network (old_actor agent0) (actor agent0)"
    using t by blast
  then have a': "old_actor agent1 = actor agent0"
    by (simp add: copy_target_network_def)
  have b: "events agent1 =
             [SyncOldActor, PolicyUpdate, PolicyUpdate, DiscriminatorUpdate, BufferClear]"
    by (simp add: agent1_def)
  have c: "old_actor (agent0\<lparr>actor := [1], critic := [1], actor_optim := 1, critic_optim := 1,
                         events := [PolicyUpdate]\<rparr>) = old_actor agent0"
    using t update_policy_example by blast
  have h: "fst (actor_act E0 [2, 3] (normalize_ob E0 (ob batch0)) (ac_before_activation batch0))
       = fst (actor_act E0 (old_actor agent0) (normalize_ob E0 (ob batch0))
               (ac_before_activation batch0))"
    by (simp add: E0_def agent0_def)
  have d: "update_policy E0 cfg_two (agent0\<lparr>old_actor := [2, 3]\<rparr>) batch0
       = map_sum id (\<lambda>s2. s2\<lparr>old_actor := [2, 3]\<rparr>) (update_policy E0 cfg_two agent0 batch0)"
    using t h by blast
  show ?thesis using train_example a a' b c h d update_policy_example by blast
qed

end
